theory Spec2Isabelle
  imports Main "HOL-Library.AList" "HOL-Library.Char_ord" "HOL-Library.List_Lexorder"
begin

section \<open>Python values\<close>

text \<open>
  The handlers of \<^verbatim>\<open>poll.py\<close> receive the body of a request after \<^verbatim>\<open>json.loads\<close>: any
  JSON value. Numbers are integers here (floating point is left out), a JSON object is the
  list of its key/value pairs.
\<close>

datatype json =
    JNull
  | JBool bool
  | JInt int
  | JStr string
  | JList "json list"
  | JDict "(string \<times> json) list"

text \<open>The exceptions the modelled code can raise.\<close>

datatype py_error = KeyError | TypeError | AttributeError | ValueError

text \<open>Sequencing of computations that may raise: the first exception wins.\<close>

definition and_then :: "py_error + 'a \<Rightarrow> ('a \<Rightarrow> py_error + 'b) \<Rightarrow> py_error + 'b" where
  "and_then m f = (case m of Inl e \<Rightarrow> Inl e | Inr x \<Rightarrow> f x)"

subsection \<open>Dictionaries\<close>

text \<open>
  A Python \<^verbatim>\<open>dict\<close> is the list of its items. \<^verbatim>\<open>d[k] = v\<close> replaces the value of an
  existing key and appends a new one otherwise; \<^verbatim>\<open>del d[k]\<close> drops the key; \<^verbatim>\<open>d[k]\<close>
  raises \<^verbatim>\<open>KeyError\<close> on a missing key. The order of the items is the order of insertion;
  nothing below depends on it.
\<close>

definition dict_keys :: "('k \<times> 'v) list \<Rightarrow> 'k list" where
  "dict_keys d = map fst d"

definition dict_values :: "('k \<times> 'v) list \<Rightarrow> 'v list" where
  "dict_values d = map snd d"

definition has_key :: "('k \<times> 'v) list \<Rightarrow> 'k \<Rightarrow> bool" where
  "has_key d k = (k \<in> set (map fst d))"

definition getitem :: "('k \<times> 'v) list \<Rightarrow> 'k \<Rightarrow> py_error + 'v" where
  "getitem d k = (case map_of d k of None \<Rightarrow> Inl KeyError | Some v \<Rightarrow> Inr v)"

definition setitem :: "('k \<times> 'v) list \<Rightarrow> 'k \<Rightarrow> 'v \<Rightarrow> ('k \<times> 'v) list" where
  "setitem d k v = AList.update k v d"

definition delitem :: "('k \<times> 'v) list \<Rightarrow> 'k \<Rightarrow> ('k \<times> 'v) list" where
  "delitem d k = AList.delete k d"

text \<open>\<^verbatim>\<open>dict(pairs)\<close>: the pairs are inserted from left to right, a later pair wins.\<close>

definition dict :: "('k \<times> 'v) list \<Rightarrow> ('k \<times> 'v) list" where
  "dict ps = fold (\<lambda>(k, v) d. setitem d k v) ps []"

text \<open>\<^verbatim>\<open>d.update(e)\<close>.\<close>

definition dict_update :: "('k \<times> 'v) list \<Rightarrow> ('k \<times> 'v) list \<Rightarrow> ('k \<times> 'v) list" where
  "dict_update d e = fold (\<lambda>(k, v) d. setitem d k v) e d"

text \<open>\<^verbatim>\<open>d[k] += n\<close> on a dictionary of counters.\<close>

definition iadd :: "('k \<times> int) list \<Rightarrow> 'k \<Rightarrow> int \<Rightarrow> py_error + ('k \<times> int) list" where
  "iadd d k n = and_then (getitem d k) (\<lambda>v. Inr (setitem d k (v + n)))"

subsection \<open>Operations on JSON values\<close>

text \<open>\<^verbatim>\<open>x[k]\<close> for a string \<open>k\<close>: only a dictionary can be indexed by a string.\<close>

definition subscript :: "json \<Rightarrow> string \<Rightarrow> py_error + json" where
  "subscript x k = (case x of JDict d \<Rightarrow> getitem d k | _ \<Rightarrow> Inl TypeError)"

text \<open>\<^verbatim>\<open>d.get(k, default)\<close> on a dictionary.\<close>

definition dict_get :: "('k \<times> 'v) list \<Rightarrow> 'k \<Rightarrow> 'v \<Rightarrow> 'v" where
  "dict_get d k dflt = (case map_of d k of None \<Rightarrow> dflt | Some v \<Rightarrow> v)"

text \<open>
  Looking a JSON value up in a dictionary with string keys hashes the value first:
  lists and dictionaries are unhashable (\<^verbatim>\<open>TypeError\<close>); a hashable value that is not a
  string equals no key.
\<close>

definition json_getitem :: "(string \<times> 'v) list \<Rightarrow> json \<Rightarrow> py_error + 'v" where
  "json_getitem d x =
    (case x of
       JStr k \<Rightarrow> getitem d k
     | JList _ \<Rightarrow> Inl TypeError
     | JDict _ \<Rightarrow> Inl TypeError
     | _ \<Rightarrow> Inl KeyError)"

text \<open>\<^verbatim>\<open>x in d\<close> for a dictionary \<open>d\<close> with string keys.\<close>

definition json_in_dict :: "(string \<times> 'v) list \<Rightarrow> json \<Rightarrow> py_error + bool" where
  "json_in_dict d x =
    (case x of
       JStr k \<Rightarrow> Inr (has_key d k)
     | JList _ \<Rightarrow> Inl TypeError
     | JDict _ \<Rightarrow> Inl TypeError
     | _ \<Rightarrow> Inr False)"

text \<open>\<^verbatim>\<open>x in ks\<close> for a list \<open>ks\<close> of strings compares by equality and raises nothing.\<close>

definition json_in_list :: "string list \<Rightarrow> json \<Rightarrow> bool" where
  "json_in_list ks x = (case x of JStr k \<Rightarrow> k \<in> set ks | _ \<Rightarrow> False)"

text \<open>\<^verbatim>\<open>bool(x)\<close>.\<close>

definition truthy :: "json \<Rightarrow> bool" where
  "truthy x =
    (case x of
       JNull \<Rightarrow> False
     | JBool b \<Rightarrow> b
     | JInt n \<Rightarrow> n \<noteq> 0
     | JStr s \<Rightarrow> s \<noteq> []
     | JList xs \<Rightarrow> xs \<noteq> []
     | JDict d \<Rightarrow> d \<noteq> [])"

text \<open>
  \<^verbatim>\<open>x.strip()\<close>: only strings have the method. A character is a code point below
  256; the white space that Python strips from a unicode string is, in that range, the
  code points 9 to 13, 28 to 32, 133 and 160.
\<close>

definition is_space :: "char \<Rightarrow> bool" where
  "is_space c =
    (let n = (of_char c :: nat)
     in (9 \<le> n \<and> n \<le> 13) \<or> (28 \<le> n \<and> n \<le> 32) \<or> n = 133 \<or> n = 160)"

definition strip :: "string \<Rightarrow> string" where
  "strip s = rev (dropWhile is_space (rev (dropWhile is_space s)))"

definition py_strip :: "json \<Rightarrow> py_error + string" where
  "py_strip x = (case x of JStr s \<Rightarrow> Inr (strip s) | _ \<Rightarrow> Inl AttributeError)"

text \<open>
  \<^verbatim>\<open>int(x)\<close>: an integer is itself, a boolean is 0 or 1, a string is parsed as an optional
  sign and decimal digits between white space (\<^verbatim>\<open>ValueError\<close> otherwise), anything else
  is a \<^verbatim>\<open>TypeError\<close>.
\<close>

definition digit_of :: "char \<Rightarrow> nat option" where
  "digit_of c =
    (let n = (of_char c :: nat) in if 48 \<le> n \<and> n \<le> 57 then Some (n - 48) else None)"

fun digits_value :: "nat \<Rightarrow> string \<Rightarrow> nat option" where
  "digits_value acc [] = Some acc"
| "digits_value acc (c # cs) =
    (case digit_of c of None \<Rightarrow> None | Some d \<Rightarrow> digits_value (10 * acc + d) cs)"

definition parse_digits :: "string \<Rightarrow> py_error + int" where
  "parse_digits s =
    (if s = [] then Inl ValueError
     else case digits_value 0 s of None \<Rightarrow> Inl ValueError | Some n \<Rightarrow> Inr (int n))"

definition parse_int :: "string \<Rightarrow> py_error + int" where
  "parse_int s =
    (case s of
       [] \<Rightarrow> Inl ValueError
     | c # cs \<Rightarrow>
         if c = CHR ''-'' then and_then (parse_digits cs) (\<lambda>n. Inr (- n))
         else if c = CHR ''+'' then parse_digits cs
         else parse_digits s)"

definition py_int :: "json \<Rightarrow> py_error + int" where
  "py_int x =
    (case x of
       JInt n \<Rightarrow> Inr n
     | JBool b \<Rightarrow> Inr (if b then 1 else 0)
     | JStr s \<Rightarrow> parse_int (strip s)
     | _ \<Rightarrow> Inl TypeError)"

section \<open>Results and messages\<close>

text \<open>
  Every message is kept as the format string it comes from (one constructor each) with
  the arguments of \<^verbatim>\<open>format\<close>; \<^verbatim>\<open>ugettext\<close> translates the text and is left out.
\<close>

datatype message =
    FieldNotPresent string
  | NotJavascriptObject string json
  | ContainsNoKey string json
  | NoTextOrImg string
  | AddedWithNoLabel string
  | ImageNeedsAltText
  | IncludeAtLeastOne string
  | MaxSubmissionsNotInteger
  | PrivateResultsConflict
  | MustSpecifyQuestion
  | AlreadyVoted
  | AnswerNotIncluded
  | NoKeyInAnswers json
  | VotedAsManyTimesAsAllowed
  | QuestionsMismatch
  | UnknownAnswer string json

record result =
  success :: bool
  errors :: "message list"

text \<open>The result of \<^verbatim>\<open>vote\<close> gets three more keys on some paths.\<close>

record vote_result = result +
  res_can_vote :: "bool option"
  res_submissions_count :: "int option"
  res_max_submissions :: "int option"

text \<open>\<^verbatim>\<open>result['errors'].append(m)\<close>, and the same after \<^verbatim>\<open>result['success'] = False\<close>.\<close>

definition add_error :: "message \<Rightarrow> 'a result_scheme \<Rightarrow> 'a result_scheme" where
  "add_error m r = r\<lparr>errors := errors r @ [m]\<rparr>"

definition reject :: "message \<Rightarrow> 'a result_scheme \<Rightarrow> 'a result_scheme" where
  "reject m r = add_error m (r\<lparr>success := False\<rparr>)"

section \<open>PollBase\<close>

record poll_base =
  private_results :: bool
  max_submissions :: int
  submissions_count :: int
  feedback :: string

definition can_vote :: "'a poll_base_scheme \<Rightarrow> bool" where
  "can_vote s = (max_submissions s = 0 \<or> submissions_count s < max_submissions s)"

text \<open>
  \<^verbatim>\<open>get_max_submissions\<close>: \<^verbatim>\<open>KeyError\<close> and \<^verbatim>\<open>ValueError\<close> are caught, any other exception
  of \<^verbatim>\<open>int\<close> goes on. The updated \<^verbatim>\<open>result\<close> is returned with the number.
\<close>

definition get_max_submissions ::
  "(string \<times> json) list \<Rightarrow> result \<Rightarrow> bool \<Rightarrow> py_error + (int \<times> result)" where
  "get_max_submissions data result private_results' =
    and_then
      (case and_then (getitem data ''max_submissions'') py_int of
         Inr n \<Rightarrow> Inr (n, result)
       | Inl ValueError \<Rightarrow> Inr (1, reject MaxSubmissionsNotInteger result)
       | Inl KeyError \<Rightarrow> Inr (1, reject MaxSubmissionsNotInteger result)
       | Inl e \<Rightarrow> Inl e)
      (\<lambda>(max_submissions', result1).
         Inr (max_submissions',
              if max_submissions' \<noteq> 1 \<and> \<not> private_results'
              then reject PrivateResultsConflict result1 else result1))"

text \<open>
  \<^verbatim>\<open>gather_items\<close>. The body of the loop over \<^verbatim>\<open>source_items\<close> is \<open>gather_item\<close>; it
  takes and returns the items gathered so far and \<^verbatim>\<open>result\<close>. \<open>alt_mandatory\<close> is what
  \<^verbatim>\<open>img_alt_mandatory()\<close> reads from the settings of the runtime.
\<close>

definition gather_item ::
  "bool \<Rightarrow> string \<Rightarrow> bool \<Rightarrow> json \<Rightarrow> (string \<times> json) list \<times> result
    \<Rightarrow> py_error + ((string \<times> json) list \<times> result)" where
  "gather_item alt_mandatory noun image' item acc =
    (case acc of (items, result) \<Rightarrow>
     (case item of
        JDict d \<Rightarrow>
          and_then (py_strip (dict_get d ''key'' (JStr []))) (\<lambda>key.
          let result1 = (if key = [] then reject (ContainsNoKey noun item) result else result) in
          and_then (py_strip (dict_get d ''img'' (JStr []))) (\<lambda>image_link.
          and_then (py_strip (dict_get d ''img_alt'' (JStr []))) (\<lambda>image_alt.
          and_then (py_strip (dict_get d ''label'' (JStr []))) (\<lambda>label.
          let result2 =
                (if label = [] then
                   (if image' \<and> image_link = [] then reject (NoTextOrImg noun) result1
                    else if \<not> image' then reject (AddedWithNoLabel noun) result1
                    else result1)
                 else result1);
              result3 =
                (if image_link \<noteq> [] \<and> image_alt = [] \<and> alt_mandatory
                 then reject ImageNeedsAltText result2 else result2)
          in Inr (items @
                   [if image'
                    then (key, JDict [(''label'', JStr label), (''img'', JStr image_link),
                                      (''img_alt'', JStr image_alt)])
                    else (key, JStr label)],
                  result3)))))
      | _ \<Rightarrow> Inr (items, reject (NotJavascriptObject noun item) result)))"

fun gather_loop ::
  "bool \<Rightarrow> string \<Rightarrow> bool \<Rightarrow> json list \<Rightarrow> (string \<times> json) list \<times> result
    \<Rightarrow> py_error + ((string \<times> json) list \<times> result)" where
  "gather_loop alt_mandatory noun image' [] acc = Inr acc"
| "gather_loop alt_mandatory noun image' (item # source_items) acc =
    and_then (gather_item alt_mandatory noun image' item acc)
      (gather_loop alt_mandatory noun image' source_items)"

definition gather_items ::
  "bool \<Rightarrow> (string \<times> json) list \<Rightarrow> result \<Rightarrow> string \<Rightarrow> string \<Rightarrow> bool
    \<Rightarrow> py_error + ((string \<times> json) list \<times> result)" where
  "gather_items alt_mandatory data result noun field image' =
    (case (case map_of data field of
             Some (JList xs) \<Rightarrow> (xs, result)
           | _ \<Rightarrow> ([], reject (FieldNotPresent field) result)) of
       (source_items, result1) \<Rightarrow>
         and_then (gather_loop alt_mandatory noun image' source_items ([], result1))
           (\<lambda>(items, result2).
              Inr (items, if items = [] then reject (IncludeAtLeastOne noun) result2 else result2)))"

section \<open>PollBlock\<close>

text \<open>
  \<^verbatim>\<open>answers\<close> is the list of pairs of an answer key and its label/image object,
  \<^verbatim>\<open>tally\<close> the dictionary of counters, \<^verbatim>\<open>choice\<close> the user's answer key or \<^verbatim>\<open>None\<close>.
\<close>

record poll_block = poll_base +
  poll_display_name :: string
  question :: string
  poll_answers :: "(string \<times> json) list"
  poll_tally :: "(string \<times> int) list"
  choice :: "string option"

definition poll_clean_tally :: "poll_block \<Rightarrow> poll_block" where
  "poll_clean_tally s =
    (let answers = dict (poll_answers s);
         t1 = fold (\<lambda>key t. if \<not> has_key t key then setitem t key 0 else t)
                (dict_keys answers) (poll_tally s);
         t2 = fold (\<lambda>key t. if \<not> has_key answers key then delitem t key else t)
                (dict_keys t1) t1
     in s\<lparr>poll_tally := t2\<rparr>)"

text \<open>
  \<^verbatim>\<open>get_choice\<close> assigns to no field; it returns the block as it got it, and the
  choice if it is non-empty and still a key of the answers.
\<close>

definition get_choice :: "poll_block \<Rightarrow> poll_block \<times> string option" where
  "get_choice s =
    (case choice s of
       None \<Rightarrow> (s, None)
     | Some c \<Rightarrow> if c \<noteq> [] \<and> has_key (dict (poll_answers s)) c then (s, Some c) else (s, None))"

text \<open>
  \<^verbatim>\<open>student_view_user_state\<close>: the dictionary that is serialised into the response.
\<close>

record poll_user_state =
  state_choice :: "string option"
  state_tally :: "(string \<times> int) list"
  state_submissions_count :: int

definition poll_student_view_user_state :: "poll_block \<Rightarrow> poll_block \<times> poll_user_state" where
  "poll_student_view_user_state s =
    (case get_choice s of
       (s1, c) \<Rightarrow>
         (s1, \<lparr>state_choice = c, state_tally = poll_tally s1,
               state_submissions_count = submissions_count s1\<rparr>))"

text \<open>
  \<^verbatim>\<open>vote\<close>. The first definition is the part from \<^verbatim>\<open>if old_choice is None\<close> on, reached
  with a choice that is a key of the answers, hence a string. \<^verbatim>\<open>send_vote_event\<close> publishes
  to the runtime and touches no field; it is left out.
\<close>

definition poll_record_vote ::
  "poll_block \<Rightarrow> vote_result \<Rightarrow> string option \<Rightarrow> string
    \<Rightarrow> py_error + (poll_block \<times> vote_result)" where
  "poll_record_vote s1 result old_choice c =
    (let s2 = (if old_choice = None then s1\<lparr>submissions_count := 0\<rparr> else s1)
     in if \<not> can_vote s2
        then Inr (s2, add_error VotedAsManyTimesAsAllowed result)
        else
          (let s3 = poll_clean_tally s2 in
           and_then
             (case old_choice of
                None \<Rightarrow> Inr (poll_tally s3)
              | Some old \<Rightarrow> iadd (poll_tally s3) old (- 1))
             (\<lambda>t1.
           and_then (iadd t1 c 1) (\<lambda>t2.
           let s4 = s3\<lparr>submissions_count := submissions_count s3 + 1,
                         poll_tally := t2,
                         choice := Some c\<rparr>
           in Inr (s4, result
                \<lparr>success := True,
                 res_can_vote := Some (can_vote s4),
                 res_submissions_count := Some (submissions_count s4),
                 res_max_submissions := Some (max_submissions s4)\<rparr>)))))"

definition poll_vote :: "poll_block \<Rightarrow> json \<Rightarrow> py_error + (poll_block \<times> vote_result)" where
  "poll_vote s0 data =
    (let result = \<lparr>success = False, errors = [], res_can_vote = None,
                   res_submissions_count = None, res_max_submissions = None\<rparr>
     in case get_choice s0 of (s1, old_choice) \<Rightarrow>
       if old_choice \<noteq> None \<and> \<not> private_results s1
       then Inr (s1, add_error AlreadyVoted result)
       else
         (case subscript data ''choice'' of
            Inl KeyError \<Rightarrow> Inr (s1, add_error AnswerNotIncluded result)
          | Inl e \<Rightarrow> Inl e
          | Inr choice' \<Rightarrow>
              (case json_getitem (dict (poll_answers s1)) choice' of
                 Inl KeyError \<Rightarrow> Inr (s1, add_error (NoKeyInAnswers choice') result)
               | Inl e \<Rightarrow> Inl e
               | Inr _ \<Rightarrow>
                   (case choice' of
                      JStr c \<Rightarrow> poll_record_vote s1 result old_choice c
                    | _ \<Rightarrow> Inl KeyError))))"

text \<open>\<^verbatim>\<open>studio_submit\<close>: \<^verbatim>\<open>data.get\<close> needs a dictionary.\<close>

definition poll_studio_submit ::
  "bool \<Rightarrow> poll_block \<Rightarrow> json \<Rightarrow> py_error + (poll_block \<times> result)" where
  "poll_studio_submit alt_mandatory s request =
    (case request of
       JDict data \<Rightarrow>
         (let result = \<lparr>success = True, errors = []\<rparr> in
          and_then (py_strip (dict_get data ''question'' (JStr []))) (\<lambda>question'.
          and_then (py_strip (dict_get data ''feedback'' (JStr []))) (\<lambda>feedback'.
          let private_results' = truthy (dict_get data ''private_results'' (JBool False)) in
          and_then (get_max_submissions data result private_results')
            (\<lambda>(max_submissions', result1).
          and_then (py_strip (dict_get data ''display_name'' (JStr []))) (\<lambda>display_name'.
          let result2 = (if question' = [] then reject MustSpecifyQuestion result1 else result1) in
          and_then (gather_items alt_mandatory data result2 ''Answer'' ''answers'' True)
            (\<lambda>(answers', result3).
          if \<not> success result3 then Inr (s, result3)
          else Inr (s\<lparr>poll_answers := answers',
                      question := question',
                      feedback := feedback',
                      private_results := private_results',
                      poll_display_name := display_name',
                      max_submissions := max_submissions'\<rparr>, result3)))))))
     | _ \<Rightarrow> Inl AttributeError)"

section \<open>SurveyBlock\<close>

text \<open>
  \<^verbatim>\<open>tally\<close> maps a question key to the dictionary of the counters of the answers,
  \<^verbatim>\<open>choices\<close> is the dictionary of the user's answers (the data of the vote as it was
  sent), or \<^verbatim>\<open>None\<close> once \<^verbatim>\<open>remove_vote\<close> has cleared it.
\<close>

record survey_block = poll_base +
  survey_display_name :: string
  block_name :: string
  survey_answers :: "(string \<times> json) list"
  questions :: "(string \<times> json) list"
  survey_tally :: "(string \<times> (string \<times> int) list) list"
  choices :: "(string \<times> json) list option"

text \<open>
  \<^verbatim>\<open>clean_tally\<close>. \<open>clean_answers\<close> is the \<^verbatim>\<open>else\<close> branch of the first loop: the new
  counters of a question that the tally has already.
\<close>

definition clean_answers :: "(string \<times> int) list \<Rightarrow> (string \<times> int) list \<Rightarrow> (string \<times> int) list" where
  "clean_answers default_answers old =
    fold (\<lambda>existing_key new_answers.
            if \<not> has_key default_answers existing_key
            then delitem new_answers existing_key else new_answers)
      (dict_keys old) (dict_update (dict default_answers) old)"

definition survey_clean_tally :: "survey_block \<Rightarrow> survey_block" where
  "survey_clean_tally s =
    (let questions' = dict (questions s);
         answers = dict (survey_answers s);
         default_answers = map (\<lambda>answer. (answer, 0)) (dict_keys answers);
         t1 = fold (\<lambda>key t.
                 case map_of t key of
                   None \<Rightarrow> setitem t key (dict default_answers)
                 | Some old \<Rightarrow> setitem t key (clean_answers default_answers old))
                (dict_keys questions') (survey_tally s);
         t2 = fold (\<lambda>key t. if \<not> has_key questions' key then delitem t key else t)
                (dict_keys t1) t1
     in s\<lparr>survey_tally := t2\<rparr>)"

text \<open>\<^verbatim>\<open>self.tally[key][value] += n\<close>: both subscripts can raise.\<close>

definition tally_iadd ::
  "(string \<times> (string \<times> int) list) list \<Rightarrow> string \<Rightarrow> json \<Rightarrow> int
    \<Rightarrow> py_error + (string \<times> (string \<times> int) list) list" where
  "tally_iadd t key v n =
    and_then (getitem t key) (\<lambda>counters.
    and_then (json_getitem counters v) (\<lambda>c.
    case v of
      JStr a \<Rightarrow> Inr (setitem t key (setitem counters a (c + n)))
    | _ \<Rightarrow> Inl KeyError))"

text \<open>
  \<^verbatim>\<open>remove_vote\<close>: the loop over the items of \<^verbatim>\<open>self.choices\<close>, then the assignment.
  \<^verbatim>\<open>self.save()\<close> hands the fields to the runtime and is left out.
\<close>

fun remove_votes ::
  "(string \<times> json) list \<Rightarrow> (string \<times> json) list \<Rightarrow> (string \<times> json) list
    \<Rightarrow> (string \<times> (string \<times> int) list) list
    \<Rightarrow> py_error + (string \<times> (string \<times> int) list) list" where
  "remove_votes questions' answers [] t = Inr t"
| "remove_votes questions' answers ((key, v) # rest) t =
    (if has_key questions' key then
       and_then (json_in_dict answers v) (\<lambda>known.
         if known then and_then (tally_iadd t key v (- 1)) (remove_votes questions' answers rest)
         else remove_votes questions' answers rest t)
     else remove_votes questions' answers rest t)"

definition remove_vote :: "survey_block \<Rightarrow> py_error + survey_block" where
  "remove_vote s =
    (case choices s of
       None \<Rightarrow> Inl AttributeError
     | Some c \<Rightarrow>
         and_then (remove_votes (dict (questions s)) (dict (survey_answers s)) c (survey_tally s))
           (\<lambda>t. Inr (s\<lparr>survey_tally := t, choices := None\<rparr>)))"

text \<open>\<^verbatim>\<open>get_choices\<close>; \<open>check_values\<close> is its loop over the values of the choices.\<close>

fun check_values ::
  "survey_block \<Rightarrow> (string \<times> json) list \<Rightarrow> json list
    \<Rightarrow> py_error + (survey_block \<times> (string \<times> json) list option)" where
  "check_values s answers [] = Inr (s, choices s)"
| "check_values s answers (v # rest) =
    and_then (json_in_dict answers v) (\<lambda>known.
      if \<not> known then and_then (remove_vote s) (\<lambda>s'. Inr (s', None))
      else check_values s answers rest)"

definition get_choices ::
  "survey_block \<Rightarrow> py_error + (survey_block \<times> (string \<times> json) list option)" where
  "get_choices s =
    (let questions' = dict (questions s);
         answers = dict (survey_answers s)
     in case choices s of
          None \<Rightarrow> Inr (s, None)
        | Some c \<Rightarrow>
            if sort (dict_keys questions') \<noteq> sort (dict_keys c)
            then and_then (remove_vote s) (\<lambda>s'. Inr (s', None))
            else check_values s answers (dict_values c))"

record survey_user_state =
  state_choices :: "(string \<times> json) list option"
  state_survey_tally :: "(string \<times> (string \<times> int) list) list"
  state_survey_submissions_count :: int

definition survey_student_view_user_state ::
  "survey_block \<Rightarrow> py_error + (survey_block \<times> survey_user_state)" where
  "survey_student_view_user_state s =
    and_then (get_choices s) (\<lambda>(s1, c).
      Inr (s1, \<lparr>state_choices = c, state_survey_tally = survey_tally s1,
                state_survey_submissions_count = submissions_count s1\<rparr>))"

text \<open>
  \<^verbatim>\<open>vote\<close>. A dictionary or \<^verbatim>\<open>None\<close> is true when it is a non-empty dictionary.
  \<open>add_votes\<close> is the loop that records the vote.
\<close>

definition nonempty :: "('k \<times> 'v) list option \<Rightarrow> bool" where
  "nonempty d = (case d of None \<Rightarrow> False | Some c \<Rightarrow> c \<noteq> [])"

fun add_votes ::
  "(string \<times> json) list \<Rightarrow> (string \<times> (string \<times> int) list) list
    \<Rightarrow> py_error + (string \<times> (string \<times> int) list) list" where
  "add_votes [] t = Inr t"
| "add_votes ((key, v) # rest) t = and_then (tally_iadd t key v 1) (add_votes rest)"

definition survey_vote ::
  "survey_block \<Rightarrow> json \<Rightarrow> py_error + (survey_block \<times> vote_result)" where
  "survey_vote s0 request =
    (let questions' = dict (questions s0);
         answers = dict (survey_answers s0);
         result = \<lparr>success = True, errors = [], res_can_vote = None,
                   res_submissions_count = None, res_max_submissions = None\<rparr>
     in and_then (get_choices s0) (\<lambda>(s1, choices').
        let result1 = (if nonempty choices' \<and> \<not> private_results s1
                       then reject AlreadyVoted result else result);
            s2 = (if \<not> nonempty choices' then s1\<lparr>submissions_count := 0\<rparr> else s1);
            result2 = (if \<not> can_vote s2
                       then reject VotedAsManyTimesAsAllowed result1 else result1)
        in case request of
             JDict data \<Rightarrow>
               (let result3 = (if \<not> sort (dict_keys data) = sort (dict_keys questions')
                               then reject QuestionsMismatch result2 else result2);
                    result4 = fold (\<lambda>(key, v) r.
                                 if \<not> json_in_list (dict_keys answers) v
                                 then reject (UnknownAnswer key v) r else r) data result3
                in if \<not> success result4
                   then Inr (s2, result4\<lparr>res_can_vote := Some (can_vote s2)\<rparr>)
                   else
                     and_then (if nonempty (choices s2) then remove_vote s2 else Inr s2) (\<lambda>s3.
                     let s4 = survey_clean_tally (s3\<lparr>choices := Some data\<rparr>) in
                     and_then (add_votes data (survey_tally s4)) (\<lambda>t.
                     let s5 = s4\<lparr>submissions_count := submissions_count s4 + 1,
                                   survey_tally := t\<rparr>
                     in Inr (s5, result4
                          \<lparr>res_can_vote := Some (can_vote s5),
                           res_submissions_count := Some (submissions_count s5),
                           res_max_submissions := Some (max_submissions s5)\<rparr>))))
           | _ \<Rightarrow> Inl AttributeError))"

definition survey_studio_submit ::
  "bool \<Rightarrow> survey_block \<Rightarrow> json \<Rightarrow> py_error + (survey_block \<times> result)" where
  "survey_studio_submit alt_mandatory s request =
    (case request of
       JDict data \<Rightarrow>
         (let result = \<lparr>success = True, errors = []\<rparr> in
          and_then (py_strip (dict_get data ''feedback'' (JStr []))) (\<lambda>feedback'.
          and_then (py_strip (dict_get data ''display_name'' (JStr []))) (\<lambda>block_name'.
          let private_results' = truthy (dict_get data ''private_results'' (JBool False)) in
          and_then (get_max_submissions data result private_results')
            (\<lambda>(max_submissions', result1).
          and_then (gather_items alt_mandatory data result1 ''Answer'' ''answers'' False)
            (\<lambda>(answers', result2).
          and_then (gather_items alt_mandatory data result2 ''Question'' ''questions'' True)
            (\<lambda>(questions', result3).
          if \<not> success result3 then Inr (s, result3)
          else Inr (s\<lparr>survey_answers := answers',
                      questions := questions',
                      feedback := feedback',
                      private_results := private_results',
                      max_submissions := max_submissions',
                      block_name := block_name'\<rparr>, result3)))))))
     | _ \<Rightarrow> Inl AttributeError)"

text \<open>\<^verbatim>\<open>tally[q][a]\<close> as a lookup that may find nothing.\<close>

definition counter :: "(string \<times> (string \<times> int) list) list \<Rightarrow> string \<Rightarrow> string \<Rightarrow> int option" where
  "counter t q a = (case map_of t q of None \<Rightarrow> None | Some counters \<Rightarrow> map_of counters a)"


section \<open>Blocks and requests used as examples\<close>

text \<open>An answer or question without image, as the defaults of the fields have it.\<close>

definition labelled :: "string \<Rightarrow> json" where
  "labelled l = JDict [(''label'', JStr l), (''img'', JNull), (''img_alt'', JNull)]"

text \<open>The defaults of the fields of \<^verbatim>\<open>PollBlock\<close>.\<close>

definition default_poll :: poll_block where
  "default_poll =
    \<lparr>private_results = False, max_submissions = 1, submissions_count = 0, feedback = [],
     poll_display_name = ''Poll'', question = ''What is your favorite color?'',
     poll_answers = [(''R'', labelled ''Red''), (''B'', labelled ''Blue''),
                     (''G'', labelled ''Green''), (''O'', labelled ''Other'')],
     poll_tally = [(''R'', 0), (''B'', 0), (''G'', 0), (''O'', 0)],
     choice = None\<rparr>"

text \<open>
  The ``Customized Poll'' of \<^verbatim>\<open>workbench_scenarios\<close>: its tally counts the key
  \<^verbatim>\<open>long\<close>, its answers have the key \<^verbatim>\<open>longt\<close>.
\<close>

definition customized_poll :: poll_block where
  "customized_poll =
    default_poll
    \<lparr>feedback := ''### Thank you'',
     question := ''## How long have you been studying with us?'',
     poll_answers := [(''longt'', labelled ''A very long time''),
                      (''short'', labelled ''Not very long''),
                      (''not_saying'', labelled ''I shall not say''),
                      (''longer'', labelled ''Longer than you'')],
     poll_tally := [(''long'', 20), (''short'', 29), (''not_saying'', 15), (''longer'', 35)]\<rparr>"

text \<open>The defaults of the fields of \<^verbatim>\<open>SurveyBlock\<close>.\<close>

definition default_survey :: survey_block where
  "default_survey =
    \<lparr>private_results = False, max_submissions = 1, submissions_count = 0, feedback = [],
     survey_display_name = ''Survey'', block_name = ''Poll'',
     survey_answers = [(''Y'', JStr ''Yes''), (''N'', JStr ''No''), (''M'', JStr ''Maybe'')],
     questions = [(''enjoy'', labelled ''Are you enjoying the course?''),
                  (''recommend'', labelled ''Would you recommend this course to your friends?''),
                  (''learn'', labelled ''Do you think you will learn a lot?'')],
     survey_tally = [(''enjoy'', [(''Y'', 0), (''N'', 0), (''M'', 0)]),
                     (''recommend'', [(''Y'', 0), (''N'', 0), (''M'', 0)]),
                     (''learn'', [(''Y'', 0), (''N'', 0), (''M'', 0)])],
     choices = Some []\<rparr>"

text \<open>
  A survey whose tally was filled before the studio replaced the question \<^verbatim>\<open>learn\<close>
  by \<^verbatim>\<open>pace\<close> and the answer \<^verbatim>\<open>M\<close> by \<^verbatim>\<open>U\<close>.
\<close>

definition edited_survey :: survey_block where
  "edited_survey =
    default_survey
    \<lparr>survey_answers := [(''Y'', JStr ''Yes''), (''N'', JStr ''No''), (''U'', JStr ''Unsure'')],
     questions := [(''enjoy'', labelled ''Are you enjoying the course?''),
                   (''recommend'', labelled ''Would you recommend this course to your friends?''),
                   (''pace'', labelled ''Is the pace right?'')],
     survey_tally := [(''enjoy'', [(''Y'', 4), (''N'', 1), (''M'', 2)]),
                      (''recommend'', [(''Y'', 3), (''N'', 3), (''M'', 1)]),
                      (''learn'', [(''Y'', 7), (''N'', 0), (''M'', 0)])]\<rparr>"



text \<open>The request \<^verbatim>\<open>{"choice": c}\<close>.\<close>

definition choice_request :: "json \<Rightarrow> json" where
  "choice_request c = JDict [(''choice'', c)]"

section \<open>The validation failures of a studio request\<close>

text \<open>
  What the claim about \<^verbatim>\<open>studio_submit\<close> lists, written down from its words and not from
  the code: the failures of a request, one message for each, in the order of the checks.
  \<open>text_field\<close> is a field of a dictionary that is a string, stripped; a field that is
  missing counts as empty.
\<close>

definition text_field :: "(string \<times> json) list \<Rightarrow> string \<Rightarrow> string" where
  "text_field d k = (case dict_get d k (JStr []) of JStr s \<Rightarrow> strip s | _ \<Rightarrow> [])"

definition is_object :: "json \<Rightarrow> bool" where
  "is_object x = (case x of JDict _ \<Rightarrow> True | _ \<Rightarrow> False)"

definition item_failures :: "bool \<Rightarrow> string \<Rightarrow> bool \<Rightarrow> json \<Rightarrow> message list" where
  "item_failures alt_mandatory noun image' item =
    (case item of
       JDict d \<Rightarrow>
         (if text_field d ''key'' = [] then [ContainsNoKey noun item] else [])
         @ (if text_field d ''label'' = [] \<and> image' \<and> text_field d ''img'' = []
            then [NoTextOrImg noun] else [])
         @ (if text_field d ''label'' = [] \<and> \<not> image' then [AddedWithNoLabel noun] else [])
         @ (if text_field d ''img'' \<noteq> [] \<and> text_field d ''img_alt'' = [] \<and> alt_mandatory
            then [ImageNeedsAltText] else [])
     | _ \<Rightarrow> [NotJavascriptObject noun item])"

definition items_failures ::
  "bool \<Rightarrow> (string \<times> json) list \<Rightarrow> string \<Rightarrow> string \<Rightarrow> bool \<Rightarrow> message list" where
  "items_failures alt_mandatory data noun field image' =
    (case map_of data field of
       Some (JList xs) \<Rightarrow>
         concat (map (item_failures alt_mandatory noun image') xs)
         @ (if filter is_object xs = [] then [IncludeAtLeastOne noun] else [])
     | _ \<Rightarrow> [FieldNotPresent field, IncludeAtLeastOne noun])"

definition max_submissions_failures :: "(string \<times> json) list \<Rightarrow> message list" where
  "max_submissions_failures data =
    (case and_then (getitem data ''max_submissions'') py_int of
       Inr n \<Rightarrow>
         if n \<noteq> 1 \<and> \<not> truthy (dict_get data ''private_results'' (JBool False))
         then [PrivateResultsConflict] else []
     | Inl _ \<Rightarrow> [MaxSubmissionsNotInteger])"

definition poll_failures :: "bool \<Rightarrow> (string \<times> json) list \<Rightarrow> message list" where
  "poll_failures alt_mandatory data =
    max_submissions_failures data
    @ (if text_field data ''question'' = [] then [MustSpecifyQuestion] else [])
    @ items_failures alt_mandatory data ''Answer'' ''answers'' True"

definition survey_failures :: "bool \<Rightarrow> (string \<times> json) list \<Rightarrow> message list" where
  "survey_failures alt_mandatory data =
    max_submissions_failures data
    @ items_failures alt_mandatory data ''Answer'' ''answers'' False
    @ items_failures alt_mandatory data ''Question'' ''questions'' True"

text \<open>
  \<open>extends r ms r'\<close>: the result \<open>r'\<close> is \<open>r\<close> with the messages \<open>ms\<close> appended, and it is
  a success when \<open>r\<close> was one and there is no message.
\<close>

definition extends :: "result \<Rightarrow> message list \<Rightarrow> result \<Rightarrow> bool" where
  "extends r ms r' \<longleftrightarrow> errors r' = errors r @ ms \<and> success r' = (success r \<and> ms = [])"

text \<open>Requests to \<^verbatim>\<open>studio_submit\<close>: a valid one and two with failures.\<close>

definition poll_data :: "(string \<times> json) list" where
  "poll_data =
    [(''question'', JStr ''  Which way? ''), (''feedback'', JStr ''Thanks''),
     (''display_name'', JStr ''Way''), (''max_submissions'', JStr ''1''),
     (''answers'', JList [JDict [(''key'', JStr ''L''), (''label'', JStr ''Left'')],
                         JDict [(''key'', JStr ''R''), (''label'', JStr []),
                                (''img'', JStr ''right.png''),
                                (''img_alt'', JStr ''An arrow to the right'')]])]"

definition bad_poll_data :: "(string \<times> json) list" where
  "bad_poll_data =
    [(''question'', JStr '' ''), (''max_submissions'', JInt 2),
     (''answers'', JList [JNull, JDict [(''label'', JStr ''Left''), (''img'', JStr ''l.png'')]])]"

definition bad_survey_data :: "(string \<times> json) list" where
  "bad_survey_data =
    [(''max_submissions'', JStr ''many''), (''private_results'', JBool True),
     (''answers'', JList [JDict [(''key'', JStr ''Y'')]]),
     (''questions'', JStr ''none'')]"

text \<open>
  Two requests to the poll with one failure each: \<^verbatim>\<open>max_submissions\<close> is \<^verbatim>\<open>null\<close>, or
  the key of the second answer is \<^verbatim>\<open>null\<close>.
\<close>

definition null_max_data :: "(string \<times> json) list" where
  "null_max_data =
    [(''question'', JStr ''Which way?''), (''max_submissions'', JNull),
     (''private_results'', JBool True),
     (''answers'', JList [JDict [(''key'', JStr ''L''), (''label'', JStr ''Left'')]])]"

definition null_key_data :: "(string \<times> json) list" where
  "null_key_data =
    [(''question'', JStr ''Which way?''), (''max_submissions'', JInt 1),
     (''answers'', JList [JDict [(''key'', JStr ''L''), (''label'', JStr ''Left'')],
                         JDict [(''key'', JNull), (''label'', JStr ''Right'')]])]"

section \<open>Notions for the claims about a survey\<close>

text \<open>
  The stored choices are valid when their question keys are exactly the configured ones
  and every chosen value is a configured answer key.
\<close>

definition choices_valid :: "survey_block \<Rightarrow> (string \<times> json) list \<Rightarrow> bool" where
  "choices_valid s c \<longleftrightarrow>
     set (dict_keys c) = set (dict_keys (dict (questions s)))
     \<and> list_all (json_in_list (dict_keys (dict (survey_answers s)))) (dict_values c)"

text \<open>
  The tally without the previous vote of the user: the counters of the recorded pairs whose
  question and answer are still configured are decremented.
\<close>

definition previous_removed ::
  "survey_block \<Rightarrow> py_error + (string \<times> (string \<times> int) list) list" where
  "previous_removed s =
    (case choices s of
       None \<Rightarrow> Inr (survey_tally s)
     | Some c \<Rightarrow> remove_votes (dict (questions s)) (dict (survey_answers s)) c (survey_tally s))"

text \<open>A re-vote: the user has valid choices that are not empty.\<close>

definition revote :: "survey_block \<Rightarrow> bool" where
  "revote s = (case choices s of None \<Rightarrow> False | Some c \<Rightarrow> c \<noteq> [] \<and> choices_valid s c)"

text \<open>
  The recorded pairs of the user whose question and answer are both still configured:
  the votes that removing the previous vote takes from the tally, one for each pair.
\<close>

definition recorded_pairs :: "survey_block \<Rightarrow> (string \<times> json) list" where
  "recorded_pairs s =
    (case choices s of
       None \<Rightarrow> []
     | Some c \<Rightarrow>
         filter (\<lambda>(q, v). has_key (dict (questions s)) q
                   \<and> json_in_list (dict_keys (dict (survey_answers s))) v) c)"

text \<open>A JSON value that can be hashed: anything but an array or an object.\<close>

definition hashable :: "json \<Rightarrow> bool" where
  "hashable v = (case v of JList _ \<Rightarrow> False | JDict _ \<Rightarrow> False | _ \<Rightarrow> True)"

text \<open>
  A user has voted in the default survey; then the studio has removed the question
  \<^verbatim>\<open>learn\<close>; or the survey has private results and two submissions.
\<close>

definition voted_survey :: survey_block where
  "voted_survey =
    default_survey
    \<lparr>submissions_count := 1,
     survey_tally := [(''enjoy'', [(''Y'', 1), (''N'', 0), (''M'', 0)]),
                      (''recommend'', [(''Y'', 0), (''N'', 1), (''M'', 0)]),
                      (''learn'', [(''Y'', 1), (''N'', 0), (''M'', 0)])],
     choices := Some [(''enjoy'', JStr ''Y''), (''recommend'', JStr ''N''),
                      (''learn'', JStr ''Y'')]\<rparr>"

definition invalidated_survey :: survey_block where
  "invalidated_survey =
    voted_survey
    \<lparr>questions := [(''enjoy'', labelled ''Are you enjoying the course?''),
                   (''recommend'', labelled ''Would you recommend this course to your friends?'')]\<rparr>"

definition private_survey :: survey_block where
  "private_survey = voted_survey\<lparr>private_results := True, max_submissions := 2\<rparr>"

text \<open>
  A label without image, as \<^verbatim>\<open>gather_items\<close> stores it, and the requests of a
  scenario: user A votes, the studio removes the answer \<^verbatim>\<open>Y\<close>, user B votes, the studio
  puts \<^verbatim>\<open>Y\<close> back and removes \<^verbatim>\<open>N\<close>, and A comes back. \<open>as_user\<close> is the block as
  the runtime loads it for a user: the settings and the tally are shared, \<^verbatim>\<open>choices\<close>
  and \<^verbatim>\<open>submissions_count\<close> are the user's own.
\<close>

definition gathered :: "string \<Rightarrow> json" where
  "gathered l = JDict [(''label'', JStr l), (''img'', JStr []), (''img_alt'', JStr [])]"

definition as_user :: "survey_block \<Rightarrow> (string \<times> json) list option \<Rightarrow> int \<Rightarrow> survey_block" where
  "as_user s c n = s\<lparr>submissions_count := n, choices := c\<rparr>"

definition studio_request :: "json list \<Rightarrow> json" where
  "studio_request answers =
    JDict [(''display_name'', JStr ''Poll''), (''max_submissions'', JInt 1),
           (''answers'', JList answers),
           (''questions'',
            JList [JDict [(''key'', JStr ''enjoy''), (''label'', JStr ''Are you enjoying the course?'')],
                   JDict [(''key'', JStr ''recommend''),
                          (''label'', JStr ''Would you recommend this course to your friends?'')],
                   JDict [(''key'', JStr ''learn''),
                          (''label'', JStr ''Do you think you will learn a lot?'')]])]"

definition answer_item :: "string \<Rightarrow> string \<Rightarrow> json" where
  "answer_item k l = JDict [(''key'', JStr k), (''label'', JStr l)]"

definition vote_request :: "string \<Rightarrow> string \<Rightarrow> string \<Rightarrow> json" where
  "vote_request a b c =
    JDict [(''enjoy'', JStr a), (''recommend'', JStr b), (''learn'', JStr c)]"

definition readd_scenario :: "survey_block option" where
  "readd_scenario =
    (case survey_vote default_survey (vote_request ''Y'' ''N'' ''Y'') of
       Inl _ \<Rightarrow> None
     | Inr (a1, _) \<Rightarrow>
    (case survey_studio_submit True a1
            (studio_request [answer_item ''N'' ''No'', answer_item ''M'' ''Maybe'']) of
       Inl _ \<Rightarrow> None
     | Inr (a2, _) \<Rightarrow>
    (case survey_vote (as_user a2 (Some []) 0) (vote_request ''N'' ''N'' ''N'') of
       Inl _ \<Rightarrow> None
     | Inr (b3, _) \<Rightarrow>
    (case survey_studio_submit True b3
            (studio_request [answer_item ''Y'' ''Yes'', answer_item ''M'' ''Maybe'']) of
       Inl _ \<Rightarrow> None
     | Inr (b4, _) \<Rightarrow> Some (as_user b4 (choices a1) (submissions_count a1))))))"

text \<open>The blocks on the way, and the block that A finds.\<close>

definition survey_after_edit :: survey_block where
  "survey_after_edit = voted_survey\<lparr>survey_answers := [(''N'', JStr ''No''), (''M'', JStr ''Maybe'')],
     questions := [(''enjoy'', gathered ''Are you enjoying the course?''),
                  (''recommend'', gathered ''Would you recommend this course to your friends?''),
                  (''learn'', gathered ''Do you think you will learn a lot?'')]\<rparr>"

definition survey_after_second_vote :: survey_block where
  "survey_after_second_vote = survey_after_edit\<lparr>survey_tally := [(''enjoy'', [(''N'', 1), (''M'', 0)]),
                     (''recommend'', [(''N'', 2), (''M'', 0)]),
                     (''learn'', [(''N'', 1), (''M'', 0)])],
     choices := Some [(''enjoy'', JStr ''N''), (''recommend'', JStr ''N''),
                     (''learn'', JStr ''N'')]\<rparr>"

definition readded_survey :: survey_block where
  "readded_survey =
    \<lparr>private_results = False, max_submissions = 1, submissions_count = 1, feedback = [],
     survey_display_name = ''Survey'', block_name = ''Poll'',
     survey_answers = [(''Y'', JStr ''Yes''), (''M'', JStr ''Maybe'')],
     questions = [(''enjoy'', gathered ''Are you enjoying the course?''),
                  (''recommend'', gathered ''Would you recommend this course to your friends?''),
                  (''learn'', gathered ''Do you think you will learn a lot?'')],
     survey_tally = [(''enjoy'', [(''N'', 1), (''M'', 0)]),
                     (''recommend'', [(''N'', 2), (''M'', 0)]),
                     (''learn'', [(''N'', 1), (''M'', 0)])],
     choices = Some [(''enjoy'', JStr ''Y''), (''recommend'', JStr ''N''),
                     (''learn'', JStr ''Y'')]\<rparr>"

section \<open>Properties of the dictionaries\<close>

lemma has_key_map_of: "has_key d k \<longleftrightarrow> map_of d k \<noteq> None"
  by (simp add: has_key_def map_of_eq_None_iff)

lemma map_of_setitem: "map_of (setitem d k v) = (map_of d)(k \<mapsto> v)"
  by (simp add: setitem_def update_conv')

lemma map_of_delitem: "map_of (delitem d k) = (map_of d)(k := None)"
  by (simp add: delitem_def delete_conv')

lemma set_dict_keys: "set (dict_keys d) = dom (map_of d)"
  by (simp add: dict_keys_def dom_map_of_conv_image_fst)

lemma dom_fold_setitem:
  "dom (map_of (fold (\<lambda>(k, v) d. setitem d k v) ps d)) = fst ` set ps \<union> dom (map_of d)"
  by (induction ps arbitrary: d) (auto simp: map_of_setitem)

lemma has_key_dict: "has_key (dict ps) k \<longleftrightarrow> k \<in> fst ` set ps"
  using dom_fold_setitem [of ps "[]"] by (auto simp: has_key_map_of dict_def dom_def)

lemma set_dict_keys_dict: "set (dict_keys (dict ps)) = fst ` set ps"
  using dom_fold_setitem [of ps "[]"] by (simp add: set_dict_keys dict_def)

lemma distinct_dict_keys_dict: "distinct (dict_keys (dict ps))"
proof -
  have "distinct (map fst d) \<Longrightarrow> distinct (map fst (fold (\<lambda>(k, v) d. setitem d k v) ps d))" for d
    by (induction ps arbitrary: d) (auto simp: setitem_def distinct_update)
  from this [of "[]"] show ?thesis by (simp add: dict_keys_def dict_def)
qed

lemma map_of_fold_setitem_distinct:
  "distinct (map fst e) \<Longrightarrow>
   map_of (fold (\<lambda>(k, v) d. setitem d k v) e d) a =
     (case map_of e a of Some v \<Rightarrow> Some v | None \<Rightarrow> map_of d a)"
proof (induction e arbitrary: d)
  case Nil
  then show ?case by simp
next
  case (Cons p e)
  obtain k v where p: "p = (k, v)" by (cases p)
  from Cons.prems p have "map_of e k = None"
    by (simp add: map_of_eq_None_iff)
  with Cons p show ?case
    by (auto simp: map_of_setitem split: option.splits)
qed

lemma map_of_fold_setitem_const:
  "map_of (fold (\<lambda>(k, v) d. setitem d k v) (map (\<lambda>a. (a, c)) ks) d) a =
     (if a \<in> set ks then Some c else map_of d a)"
  by (induction ks arbitrary: d) (auto simp: map_of_setitem)

section \<open>Reconciliation of the tally\<close>

text \<open>The two loops of \<^verbatim>\<open>PollBlock.clean_tally\<close>, seen through the lookup.\<close>

lemma map_of_add_missing:
  "map_of (fold (\<lambda>key t. if \<not> has_key t key then setitem t key v else t) ks t) k =
     (if k \<in> set ks \<and> map_of t k = None then Some v else map_of t k)"
  by (induction ks arbitrary: t) (auto simp: has_key_map_of map_of_setitem)

lemma map_of_drop_unknown:
  "map_of (fold (\<lambda>key t. if \<not> P key then delitem t key else t) ks t) k =
     (if k \<in> set ks \<and> \<not> P k then None else map_of t k)"
  by (induction ks arbitrary: t) (auto simp: map_of_delitem)

lemma map_of_poll_clean_tally:
  "map_of (poll_tally (poll_clean_tally s)) k =
     (if k \<in> fst ` set (poll_answers s)
      then (case map_of (poll_tally s) k of None \<Rightarrow> Some 0 | Some n \<Rightarrow> Some n)
      else None)"
proof -
  define t1 where "t1 = fold (\<lambda>key t. if \<not> has_key t key then setitem t key 0 else t)
    (dict_keys (dict (poll_answers s))) (poll_tally s)"
  have t1: "map_of t1 k =
      (if k \<in> fst ` set (poll_answers s) \<and> map_of (poll_tally s) k = None then Some 0
       else map_of (poll_tally s) k)"
    unfolding t1_def by (simp add: map_of_add_missing set_dict_keys_dict)
  have "map_of (poll_tally (poll_clean_tally s)) k =
      (if k \<in> set (dict_keys t1) \<and> \<not> has_key (dict (poll_answers s)) k then None
       else map_of t1 k)"
    unfolding poll_clean_tally_def Let_def t1_def [symmetric]
    by (simp add: map_of_drop_unknown)
  then show ?thesis
    by (auto simp: t1 has_key_dict set_dict_keys dom_def split: option.splits)
qed

lemma poll_clean_tally_fields:
  "poll_clean_tally s = s\<lparr>poll_tally := poll_tally (poll_clean_tally s)\<rparr>"
  by (simp add: poll_clean_tally_def Let_def)

text \<open>The same for \<^verbatim>\<open>SurveyBlock.clean_tally\<close>, first for the counters of one question.\<close>

lemma map_of_clean_answers:
  assumes "distinct (dict_keys old)"
  shows "map_of (clean_answers (map (\<lambda>a. (a, 0)) ks) old) a =
     (if a \<in> set ks then (case map_of old a of None \<Rightarrow> Some 0 | Some n \<Rightarrow> Some n) else None)"
proof -
  let ?d = "map (\<lambda>a. (a, 0::int)) ks"
  have hk: "has_key ?d b \<longleftrightarrow> b \<in> set ks" for b
    by (auto simp: has_key_def image_iff)
  have upd: "map_of (dict_update (dict ?d) old) a =
      (case map_of old a of Some n \<Rightarrow> Some n | None \<Rightarrow> if a \<in> set ks then Some 0 else None)"
    using assms
    by (simp add: dict_update_def dict_def dict_keys_def map_of_fold_setitem_distinct
        map_of_fold_setitem_const split: option.splits)
  have "map_of (clean_answers ?d old) a =
      (if a \<in> set (dict_keys old) \<and> \<not> has_key ?d a then None
       else map_of (dict_update (dict ?d) old) a)"
    unfolding clean_answers_def by (simp add: map_of_drop_unknown)
  then show ?thesis
    by (auto simp: upd hk set_dict_keys dom_def split: option.splits)
qed

lemma dom_clean_answers:
  "dom (map_of (clean_answers (map (\<lambda>a. (a, 0)) ks) old)) = set ks"
proof -
  let ?d = "map (\<lambda>a. (a, 0::int)) ks"
  have hk: "has_key ?d b \<longleftrightarrow> b \<in> set ks" for b
    by (auto simp: has_key_def image_iff)
  have d1: "dom (map_of (dict_update (dict ?d) old)) = fst ` set old \<union> set ks"
    using dom_fold_setitem [of old "dict ?d"] dom_fold_setitem [of ?d "[]"]
    by (simp add: dict_update_def dict_def image_image)
  have "map_of (clean_answers ?d old) a =
      (if a \<in> set (dict_keys old) \<and> \<not> has_key ?d a then None
       else map_of (dict_update (dict ?d) old) a)" for a
    unfolding clean_answers_def by (simp add: map_of_drop_unknown)
  then have "a \<in> dom (map_of (clean_answers ?d old)) \<longleftrightarrow> a \<in> set ks" for a
    using d1 by (auto simp: hk dict_keys_def dom_def split: if_splits)
  then show ?thesis by blast
qed

lemma map_of_fold_questions:
  "distinct ks \<Longrightarrow>
   map_of (fold (\<lambda>key t. case map_of t key of
                   None \<Rightarrow> setitem t key dflt
                 | Some old \<Rightarrow> setitem t key (g old)) ks t) q =
     (if q \<in> set ks then Some (case map_of t q of None \<Rightarrow> dflt | Some old \<Rightarrow> g old)
      else map_of t q)"
  by (induction ks arbitrary: t) (auto simp: map_of_setitem split: option.splits)

lemma map_of_survey_clean_tally:
  "map_of (survey_tally (survey_clean_tally s)) q =
     (if q \<in> fst ` set (questions s)
      then Some (case map_of (survey_tally s) q of
                   None \<Rightarrow> dict (map (\<lambda>a. (a, 0)) (dict_keys (dict (survey_answers s))))
                 | Some old \<Rightarrow>
                     clean_answers (map (\<lambda>a. (a, 0)) (dict_keys (dict (survey_answers s)))) old)
      else None)"
proof -
  let ?dflt = "map (\<lambda>a. (a, 0::int)) (dict_keys (dict (survey_answers s)))"
  define t1 where "t1 = fold (\<lambda>key t. case map_of t key of
                   None \<Rightarrow> setitem t key (dict ?dflt)
                 | Some old \<Rightarrow> setitem t key (clean_answers ?dflt old))
                (dict_keys (dict (questions s))) (survey_tally s)"
  have t1: "map_of t1 q =
      (if q \<in> fst ` set (questions s)
       then Some (case map_of (survey_tally s) q of None \<Rightarrow> dict ?dflt
                  | Some old \<Rightarrow> clean_answers ?dflt old)
       else map_of (survey_tally s) q)"
    unfolding t1_def
    by (simp add: map_of_fold_questions distinct_dict_keys_dict set_dict_keys_dict)
  have "map_of (survey_tally (survey_clean_tally s)) q =
      (if q \<in> set (dict_keys t1) \<and> \<not> has_key (dict (questions s)) q then None
       else map_of t1 q)"
    unfolding survey_clean_tally_def Let_def t1_def [symmetric]
    by (simp add: map_of_drop_unknown)
  then show ?thesis
    by (auto simp: t1 has_key_dict set_dict_keys dom_def split: option.splits)
qed

lemma map_of_default_answers:
  "map_of (dict (map (\<lambda>a. (a, 0::int)) ks)) a = (if a \<in> set ks then Some 0 else None)"
  by (simp add: dict_def map_of_fold_setitem_const)

lemma counter_survey_clean_tally:
  assumes "\<And>old. map_of (survey_tally s) q = Some old \<Longrightarrow> distinct (dict_keys old)"
  shows "counter (survey_tally (survey_clean_tally s)) q a =
     (if q \<in> fst ` set (questions s) \<and> a \<in> fst ` set (survey_answers s)
      then (case counter (survey_tally s) q a of None \<Rightarrow> Some 0 | Some n \<Rightarrow> Some n)
      else None)"
  using assms
  by (auto simp: counter_def map_of_survey_clean_tally map_of_default_answers
      map_of_clean_answers set_dict_keys_dict split: option.splits)

lemma keys_survey_clean_tally:
  assumes "map_of (survey_tally (survey_clean_tally s)) q = Some counters"
  shows "set (dict_keys counters) = fst ` set (survey_answers s)"
proof -
  let ?ks = "dict_keys (dict (survey_answers s))"
  have ks: "set ?ks = fst ` set (survey_answers s)"
    by (rule set_dict_keys_dict)
  from assms consider "counters = dict (map (\<lambda>a. (a, 0)) ?ks)"
    | old where "counters = clean_answers (map (\<lambda>a. (a, 0)) ?ks) old"
    by (auto simp: map_of_survey_clean_tally split: if_splits option.splits)
  then have "dom (map_of counters) = set ?ks"
  proof cases
    case 1
    then show ?thesis
      by (auto simp: map_of_default_answers dom_def split: if_splits)
  next
    case 2
    then show ?thesis
      by (simp only: dom_clean_answers)
  qed
  with ks show ?thesis
    by (simp add: set_dict_keys)
qed

text \<open>
  Claim C3. After \<^verbatim>\<open>clean_tally\<close> the keys of the stored tally are exactly the keys of the
  configured answers (\<^verbatim>\<open>PollBlock\<close>) or questions (\<^verbatim>\<open>SurveyBlock\<close>, where the keys of
  the counters of every question are exactly the keys of the configured answers); a
  counter that was there keeps its count, a new one is 0. For the counters of a question
  of a survey this is stated for a stored dictionary, whose keys are distinct.
\<close>

theorem clean_tally_reconciles:
  "set (dict_keys (poll_tally (poll_clean_tally p))) = set (dict_keys (dict (poll_answers p)))
   \<and> (\<forall>k \<in> set (dict_keys (dict (poll_answers p))).
        map_of (poll_tally (poll_clean_tally p)) k =
          (case map_of (poll_tally p) k of None \<Rightarrow> Some 0 | Some n \<Rightarrow> Some n))
   \<and> set (dict_keys (survey_tally (survey_clean_tally s))) = set (dict_keys (dict (questions s)))
   \<and> (\<forall>q counters. map_of (survey_tally (survey_clean_tally s)) q = Some counters \<longrightarrow>
        set (dict_keys counters) = set (dict_keys (dict (survey_answers s))))
   \<and> (\<forall>q \<in> set (dict_keys (dict (questions s))).
      \<forall>a \<in> set (dict_keys (dict (survey_answers s))).
        (\<forall>old. map_of (survey_tally s) q = Some old \<longrightarrow> distinct (dict_keys old)) \<longrightarrow>
        counter (survey_tally (survey_clean_tally s)) q a =
          (case counter (survey_tally s) q a of None \<Rightarrow> Some 0 | Some n \<Rightarrow> Some n))"
proof -
  have "dom (map_of (poll_tally (poll_clean_tally p))) = fst ` set (poll_answers p)"
    by (auto simp: map_of_poll_clean_tally dom_def split: if_splits option.splits)
  moreover have "dom (map_of (survey_tally (survey_clean_tally s))) = fst ` set (questions s)"
    by (auto simp: map_of_survey_clean_tally dom_def split: if_splits)
  ultimately show ?thesis
    by (simp add: set_dict_keys set_dict_keys_dict [unfolded set_dict_keys]
        map_of_poll_clean_tally keys_survey_clean_tally [unfolded set_dict_keys]
        counter_survey_clean_tally)
qed

lemmas dict_simps = dict_def dict_keys_def dict_values_def has_key_def setitem_def delitem_def
  getitem_def dict_update_def

text \<open>
  The customized poll of the workbench loses the counter of \<^verbatim>\<open>long\<close> and gets one for
  \<^verbatim>\<open>longt\<close>; the edited survey gets the question \<^verbatim>\<open>pace\<close> and the answer \<^verbatim>\<open>U\<close>.
\<close>

theorem clean_tally_reconciles_witness:
  "set (dict_keys (poll_tally (poll_clean_tally customized_poll))) =
     {''longt'', ''short'', ''not_saying'', ''longer''}
   \<and> map_of (poll_tally (poll_clean_tally customized_poll)) ''short'' = Some 29
   \<and> map_of (poll_tally (poll_clean_tally customized_poll)) ''longt'' = Some 0
   \<and> set (dict_keys (survey_tally (survey_clean_tally edited_survey))) =
       {''enjoy'', ''recommend'', ''pace''}
   \<and> map_of (survey_tally (survey_clean_tally edited_survey)) ''pace''
       = Some [(''Y'', 0), (''N'', 0), (''U'', 0)]
   \<and> counter (survey_tally (survey_clean_tally edited_survey)) ''enjoy'' ''Y'' = Some 4
   \<and> counter (survey_tally (survey_clean_tally edited_survey)) ''enjoy'' ''U'' = Some 0"
proof -
  note th = clean_tally_reconciles [of customized_poll edited_survey]
  have pa: "set (dict_keys (dict (poll_answers customized_poll))) =
      {''longt'', ''short'', ''not_saying'', ''longer''}"
    by (simp add: customized_poll_def default_poll_def dict_simps)
  have pt: "map_of (poll_tally customized_poll) ''short'' = Some 29"
      "map_of (poll_tally customized_poll) ''longt'' = None"
    by (simp_all add: customized_poll_def default_poll_def)
  have sq: "set (dict_keys (dict (questions edited_survey))) = {''enjoy'', ''recommend'', ''pace''}"
    by (simp add: edited_survey_def default_survey_def dict_simps)
  have sa: "set (dict_keys (dict (survey_answers edited_survey))) = {''Y'', ''N'', ''U''}"
    by (simp add: edited_survey_def default_survey_def dict_simps)
  have st: "map_of (survey_tally edited_survey) ''enjoy'' = Some [(''Y'', 4), (''N'', 1), (''M'', 2)]"
    by (simp add: edited_survey_def default_survey_def)
  have c: "counter (survey_tally edited_survey) ''enjoy'' ''Y'' = Some 4"
      "counter (survey_tally edited_survey) ''enjoy'' ''U'' = None"
    by (simp_all add: counter_def st)
  have pace: "map_of (survey_tally (survey_clean_tally edited_survey)) ''pace''
       = Some [(''Y'', 0), (''N'', 0), (''U'', 0)]"
    by (simp add: survey_clean_tally_def edited_survey_def default_survey_def Let_def
        clean_answers_def dict_simps)
  have wf: "\<forall>old. map_of (survey_tally edited_survey) ''enjoy'' = Some old \<longrightarrow>
      distinct (dict_keys old)"
    by (simp add: st dict_keys_def)
  have m: "''short'' \<in> set (dict_keys (dict (poll_answers customized_poll)))"
      "''longt'' \<in> set (dict_keys (dict (poll_answers customized_poll)))"
      "''enjoy'' \<in> set (dict_keys (dict (questions edited_survey)))"
      "''Y'' \<in> set (dict_keys (dict (survey_answers edited_survey)))"
      "''U'' \<in> set (dict_keys (dict (survey_answers edited_survey)))"
    unfolding pa sq sa by simp_all
  from th have k1: "set (dict_keys (poll_tally (poll_clean_tally customized_poll))) =
      set (dict_keys (dict (poll_answers customized_poll)))"
    and k2: "set (dict_keys (survey_tally (survey_clean_tally edited_survey))) =
      set (dict_keys (dict (questions edited_survey)))"
    by blast+
  from th m(1) have v1: "map_of (poll_tally (poll_clean_tally customized_poll)) ''short'' =
      (case map_of (poll_tally customized_poll) ''short'' of None \<Rightarrow> Some 0 | Some n \<Rightarrow> Some n)"
    by blast
  from th m(2) have v2: "map_of (poll_tally (poll_clean_tally customized_poll)) ''longt'' =
      (case map_of (poll_tally customized_poll) ''longt'' of None \<Rightarrow> Some 0 | Some n \<Rightarrow> Some n)"
    by blast
  from th m(3) m(4) wf
  have v3: "counter (survey_tally (survey_clean_tally edited_survey)) ''enjoy'' ''Y'' =
      (case counter (survey_tally edited_survey) ''enjoy'' ''Y'' of
         None \<Rightarrow> Some 0 | Some n \<Rightarrow> Some n)"
    by blast
  from th m(3) m(5) wf
  have v4: "counter (survey_tally (survey_clean_tally edited_survey)) ''enjoy'' ''U'' =
      (case counter (survey_tally edited_survey) ''enjoy'' ''U'' of
         None \<Rightarrow> Some 0 | Some n \<Rightarrow> Some n)"
    by blast
  show ?thesis
    unfolding k1 k2 pa sq v1 v2 v3 v4 pt c pace by simp
qed

section \<open>The limit on submissions\<close>

text \<open>
  Claim C9. \<^verbatim>\<open>can_vote\<close> is true exactly when \<^verbatim>\<open>max_submissions\<close> is 0 or
  \<^verbatim>\<open>submissions_count\<close> is below \<^verbatim>\<open>max_submissions\<close>: with \<^verbatim>\<open>max_submissions = 0\<close> a user
  may always vote, with the default 1 a user who has submitted once or more may not.
\<close>

theorem can_vote_limit:
  "(can_vote s \<longleftrightarrow> max_submissions s = 0 \<or> submissions_count s < max_submissions s)
   \<and> (max_submissions s = 0 \<longrightarrow> can_vote s)
   \<and> (max_submissions s = 1 \<and> 1 \<le> submissions_count s \<longrightarrow> \<not> can_vote s)"
  by (auto simp: can_vote_def)

theorem can_vote_limit_witness:
  "max_submissions (default_poll\<lparr>max_submissions := 0, submissions_count := 7\<rparr>) = 0
   \<and> can_vote (default_poll\<lparr>max_submissions := 0, submissions_count := 7\<rparr>)
   \<and> max_submissions (default_poll\<lparr>submissions_count := 1\<rparr>) = 1
   \<and> 1 \<le> submissions_count (default_poll\<lparr>submissions_count := 1\<rparr>)
   \<and> \<not> can_vote (default_poll\<lparr>submissions_count := 1\<rparr>)"
  using can_vote_limit [of "default_poll\<lparr>max_submissions := 0, submissions_count := 7\<rparr>"]
    can_vote_limit [of "default_poll\<lparr>submissions_count := 1\<rparr>"]
  by (simp add: default_poll_def)

section \<open>The choice of a user of a poll\<close>

text \<open>
  Claim C5. \<^verbatim>\<open>get_choice\<close> returns the stored choice exactly when it is non-empty and a
  key of the configured answers, and \<^verbatim>\<open>None\<close> otherwise; the block it leaves is the block
  it found, stale choice, tally and \<^verbatim>\<open>submissions_count\<close> included.
\<close>

theorem get_choice_valid_only:
  "fst (get_choice s) = s
   \<and> (snd (get_choice s) = Some c \<longleftrightarrow>
        choice s = Some c \<and> c \<noteq> [] \<and> c \<in> set (dict_keys (dict (poll_answers s))))
   \<and> (snd (get_choice s) = None \<longleftrightarrow>
        \<not> (\<exists>c. choice s = Some c \<and> c \<noteq> [] \<and> c \<in> set (dict_keys (dict (poll_answers s)))))"
  by (auto simp: get_choice_def has_key_def dict_keys_def split: option.splits)

theorem get_choice_valid_only_witness:
  "get_choice (default_poll\<lparr>choice := Some ''G''\<rparr>) = (default_poll\<lparr>choice := Some ''G''\<rparr>, Some ''G'')
   \<and> get_choice (customized_poll\<lparr>choice := Some ''long''\<rparr>)
       = (customized_poll\<lparr>choice := Some ''long''\<rparr>, None)"
proof -
  have a: "set (dict_keys (dict (poll_answers (default_poll\<lparr>choice := Some ''G''\<rparr>)))) =
      {''R'', ''B'', ''G'', ''O''}"
    by (simp add: default_poll_def dict_def dict_keys_def setitem_def)
  have b: "set (dict_keys (dict (poll_answers (customized_poll\<lparr>choice := Some ''long''\<rparr>)))) =
      {''longt'', ''short'', ''not_saying'', ''longer''}"
    by (simp add: customized_poll_def default_poll_def dict_def dict_keys_def setitem_def)
  from get_choice_valid_only [of "default_poll\<lparr>choice := Some ''G''\<rparr>" "''G''"]
  have 1: "fst (get_choice (default_poll\<lparr>choice := Some ''G''\<rparr>)) = default_poll\<lparr>choice := Some ''G''\<rparr>"
    "snd (get_choice (default_poll\<lparr>choice := Some ''G''\<rparr>)) = Some ''G''"
    unfolding a by simp_all
  from get_choice_valid_only [of "customized_poll\<lparr>choice := Some ''long''\<rparr>" "''long''"]
  have 2: "fst (get_choice (customized_poll\<lparr>choice := Some ''long''\<rparr>)) = customized_poll\<lparr>choice := Some ''long''\<rparr>"
    "snd (get_choice (customized_poll\<lparr>choice := Some ''long''\<rparr>)) = None"
    unfolding b by simp_all
  from 1 2 show ?thesis
    by (simp add: prod_eq_iff)
qed

section \<open>Voting in a poll\<close>





lemma poll_clean_tally_count [simp]:
  "poll_tally (poll_clean_tally (s\<lparr>submissions_count := n\<rparr>)) = poll_tally (poll_clean_tally s)"
  by (simp add: poll_clean_tally_def Let_def)

lemma json_getitem_Inr:
  "json_getitem d x = Inr v \<Longrightarrow> \<exists>k. x = JStr k \<and> map_of d k = Some v"
  by (auto simp: json_getitem_def getitem_def split: json.splits option.splits)





text \<open>Evaluation of the handlers on the example blocks.\<close>

lemmas poll_eval = poll_vote_def poll_record_vote_def poll_clean_tally_def get_choice_def
  can_vote_def subscript_def json_getitem_def iadd_def and_then_def add_error_def Let_def
  dict_simps choice_request_def labelled_def

lemmas survey_eval = get_choices_def remove_vote_def survey_student_view_user_state_def
  json_in_dict_def tally_iadd_def



text \<open>
  A request without \<^verbatim>\<open>choice\<close>, or with a hashable choice that is no key of the answers,
  is rejected with one message and the block is left as it was.
\<close>

lemma poll_vote_rejects_malformed:
  assumes "map_of d ''choice'' = None
    \<or> (\<exists>x. map_of d ''choice'' = Some x \<and> json_getitem (dict (poll_answers s)) x = Inl KeyError)"
  shows "\<exists>m. poll_vote s (JDict d) =
      Inr (s, \<lparr>success = False, errors = [m], res_can_vote = None,
               res_submissions_count = None, res_max_submissions = None\<rparr>)"
proof -
  define old where "old = snd (get_choice s)"
  have gc: "get_choice s = (s, old)"
    by (simp add: old_def get_choice_def split: option.splits)
  from assms show ?thesis
    by (auto simp: poll_vote_def Let_def gc subscript_def getitem_def add_error_def)
qed

text \<open>
  Claim C8. \<^verbatim>\<open>PollBlock.vote\<close> is to reject every malformed request with one message. A
  choice that is a JSON array is no key of the answers, and here the lookup
  \<^verbatim>\<open>OrderedDict(self.answers)[choice]\<close> raises \<^verbatim>\<open>TypeError\<close> (unhashable), which the handler
  does not catch.
\<close>

theorem poll_vote_unhashable_choice:
  "poll_vote default_poll (choice_request (JList [])) = Inl TypeError"
  by (simp add: poll_eval default_poll_def)

section \<open>The state sent to the user\<close>

text \<open>
  Claim C6. Every read of the tally for output is to reconcile it first.
  \<^verbatim>\<open>student_view_user_state\<close> returns the stored tally as it is: for the customized poll
  of the workbench with the counter of \<^verbatim>\<open>long\<close>, which is no answer; for the edited survey
  with the question \<^verbatim>\<open>learn\<close> and the answer \<^verbatim>\<open>M\<close>, which are configured no more.
\<close>

theorem user_state_not_reconciled:
  "poll_student_view_user_state customized_poll =
     (customized_poll,
      \<lparr>state_choice = None,
       state_tally = [(''long'', 20), (''short'', 29), (''not_saying'', 15), (''longer'', 35)],
       state_submissions_count = 0\<rparr>)
   \<and> ''long'' \<notin> set (dict_keys (dict (poll_answers customized_poll)))
   \<and> survey_student_view_user_state edited_survey =
       Inr (edited_survey\<lparr>choices := None\<rparr>,
            \<lparr>state_choices = None,
             state_survey_tally = [(''enjoy'', [(''Y'', 4), (''N'', 1), (''M'', 2)]),
                      (''recommend'', [(''Y'', 3), (''N'', 3), (''M'', 1)]),
                      (''learn'', [(''Y'', 7), (''N'', 0), (''M'', 0)])],
             state_survey_submissions_count = 0\<rparr>)
   \<and> ''learn'' \<notin> set (dict_keys (dict (questions edited_survey)))
   \<and> ''M'' \<notin> set (dict_keys (dict (survey_answers edited_survey)))"
  by (simp add: poll_student_view_user_state_def poll_eval survey_eval customized_poll_def
      default_poll_def edited_survey_def default_survey_def)

section \<open>Validation in the studio\<close>

lemma extends_refl: "extends r [] r"
  by (simp add: extends_def)

lemma extends_reject: "extends r [m] (reject m r)"
  by (simp add: extends_def reject_def add_error_def)

lemma extends_trans: "extends r ms r1 \<Longrightarrow> extends r1 ns r2 \<Longrightarrow> extends r (ms @ ns) r2"
  by (auto simp: extends_def)

lemma extends_if_reject:
  "extends r (if b then [m] else []) (if b then reject m r else r)"
  by (simp add: extends_refl extends_reject)

lemma py_strip_Inr: "py_strip x = Inr t \<Longrightarrow> \<exists>s. x = JStr s \<and> t = strip s"
  by (auto simp: py_strip_def split: json.splits)

lemma py_strip_text_field:
  "py_strip (dict_get d k (JStr [])) = Inr t \<Longrightarrow> text_field d k = t"
  by (auto simp: text_field_def dest: py_strip_Inr)

lemma get_max_submissions_extends:
  assumes "get_max_submissions data r (truthy (dict_get data ''private_results'' (JBool False)))
      = Inr (n, r')"
  shows "extends r (max_submissions_failures data) r'"
proof (cases "and_then (getitem data ''max_submissions'') py_int")
  case (Inl e)
  with assms have "r' = reject MaxSubmissionsNotInteger r"
    by (cases e) (auto simp: get_max_submissions_def and_then_def)
  with Inl show ?thesis
    by (simp add: max_submissions_failures_def extends_reject)
next
  case (Inr m)
  with assms have "r' = (if m \<noteq> 1 \<and> \<not> truthy (dict_get data ''private_results'' (JBool False))
      then reject PrivateResultsConflict r else r)"
    by (auto simp: get_max_submissions_def and_then_def)
  with Inr show ?thesis
    by (simp add: max_submissions_failures_def extends_reject extends_refl)
qed

lemma gather_item_extends:
  assumes "gather_item am noun im item (items, r) = Inr (items', r')"
  shows "extends r (item_failures am noun im item) r'
    \<and> length items' = length items + (if is_object item then 1 else 0)"
proof (cases "is_object item")
  case False
  with assms have "r' = reject (NotJavascriptObject noun item) r" "items' = items"
    by (auto simp: gather_item_def is_object_def split: json.splits)
  moreover from False have "item_failures am noun im item = [NotJavascriptObject noun item]"
    by (auto simp: item_failures_def is_object_def split: json.splits)
  ultimately show ?thesis
    using False by (simp add: extends_reject)
next
  case True
  then obtain d where d: "item = JDict d"
    by (auto simp: is_object_def split: json.splits)
  from assms d obtain key where key: "py_strip (dict_get d ''key'' (JStr [])) = Inr key"
    by (cases "py_strip (dict_get d ''key'' (JStr []))") (simp_all add: gather_item_def and_then_def)
  from assms d key obtain img where img: "py_strip (dict_get d ''img'' (JStr [])) = Inr img"
    by (cases "py_strip (dict_get d ''img'' (JStr []))")
      (simp_all add: gather_item_def and_then_def Let_def)
  from assms d key img obtain alt where alt: "py_strip (dict_get d ''img_alt'' (JStr [])) = Inr alt"
    by (cases "py_strip (dict_get d ''img_alt'' (JStr []))")
      (simp_all add: gather_item_def and_then_def Let_def)
  from assms d key img alt obtain lbl where lbl: "py_strip (dict_get d ''label'' (JStr [])) = Inr lbl"
    by (cases "py_strip (dict_get d ''label'' (JStr []))")
      (simp_all add: gather_item_def and_then_def Let_def)
  note tf = py_strip_text_field [OF key] py_strip_text_field [OF img]
    py_strip_text_field [OF alt] py_strip_text_field [OF lbl]
  define r1 where "r1 = (if key = [] then reject (ContainsNoKey noun item) r else r)"
  define r2 where "r2 = (if lbl = [] \<and> im \<and> img = [] then reject (NoTextOrImg noun) r1 else r1)"
  define r3 where "r3 = (if lbl = [] \<and> \<not> im then reject (AddedWithNoLabel noun) r2 else r2)"
  define r4 where "r4 = (if img \<noteq> [] \<and> alt = [] \<and> am then reject ImageNeedsAltText r3 else r3)"
  have e1: "extends r (if key = [] then [ContainsNoKey noun item] else []) r1"
    unfolding r1_def by (rule extends_if_reject)
  have e2: "extends r1 (if lbl = [] \<and> im \<and> img = [] then [NoTextOrImg noun] else []) r2"
    unfolding r2_def by (rule extends_if_reject)
  have e3: "extends r2 (if lbl = [] \<and> \<not> im then [AddedWithNoLabel noun] else []) r3"
    unfolding r3_def by (rule extends_if_reject)
  have e4: "extends r3 (if img \<noteq> [] \<and> alt = [] \<and> am then [ImageNeedsAltText] else []) r4"
    unfolding r4_def by (rule extends_if_reject)
  have eq: "item_failures am noun im item =
      (((if key = [] then [ContainsNoKey noun item] else [])
        @ (if lbl = [] \<and> im \<and> img = [] then [NoTextOrImg noun] else []))
        @ (if lbl = [] \<and> \<not> im then [AddedWithNoLabel noun] else []))
        @ (if img \<noteq> [] \<and> alt = [] \<and> am then [ImageNeedsAltText] else [])"
    by (simp add: item_failures_def d tf)
  have ext: "extends r (item_failures am noun im item) r4"
    unfolding eq by (rule extends_trans [OF extends_trans [OF extends_trans [OF e1 e2] e3] e4])
  from assms have "r' = r4 \<and> length items' = length items + 1"
    unfolding gather_item_def
    by (auto simp: d key img alt lbl and_then_def Let_def r1_def r2_def r3_def r4_def)
  with ext True show ?thesis
    by simp
qed

lemma gather_loop_extends:
  "gather_loop am noun im xs (items, r) = Inr (items', r') \<Longrightarrow>
   extends r (concat (map (item_failures am noun im) xs)) r'
   \<and> length items' = length items + length (filter is_object xs)"
proof (induction xs arbitrary: items r)
  case Nil
  then show ?case by (simp add: extends_refl)
next
  case (Cons x xs)
  from Cons.prems obtain items1 r1 where
    step: "gather_item am noun im x (items, r) = Inr (items1, r1)"
    and rest: "gather_loop am noun im xs (items1, r1) = Inr (items', r')"
    by (cases "gather_item am noun im x (items, r)") (auto simp: and_then_def)
  from gather_item_extends [OF step] Cons.IH [OF rest] show ?case
    by (auto intro: extends_trans)
qed

lemma gather_items_extends:
  assumes "gather_items am data r noun field im = Inr (items, r')"
  shows "extends r (items_failures am data noun field im) r'"
proof -
  define xs where "xs = (case map_of data field of Some (JList xs) \<Rightarrow> xs | _ \<Rightarrow> [])"
  define ms where "ms = (case map_of data field of Some (JList xs) \<Rightarrow> []
    | _ \<Rightarrow> [FieldNotPresent field])"
  define r1 where "r1 = (case map_of data field of Some (JList xs) \<Rightarrow> r
    | _ \<Rightarrow> reject (FieldNotPresent field) r)"
  have src: "(case map_of data field of
             Some (JList xs) \<Rightarrow> (xs, r)
           | _ \<Rightarrow> ([], reject (FieldNotPresent field) r)) = (xs, r1)"
    by (simp add: xs_def r1_def split: option.splits json.splits)
  have e0: "extends r ms r1"
    by (simp add: ms_def r1_def extends_refl extends_reject split: option.splits json.splits)
  from assms obtain r2 where
    loop: "gather_loop am noun im xs ([], r1) = Inr (items, r2)"
    and r': "r' = (if items = [] then reject (IncludeAtLeastOne noun) r2 else r2)"
    unfolding gather_items_def src
    by (cases "gather_loop am noun im xs ([], r1)") (auto simp: and_then_def)
  from gather_loop_extends [OF loop]
  have e1: "extends r1 (concat (map (item_failures am noun im) xs)) r2"
    and len: "length items = length (filter is_object xs)"
    by simp_all
  from len have empty: "items = [] \<longleftrightarrow> filter is_object xs = []"
    by (metis length_0_conv)
  have e2: "extends r2 (if items = [] then [IncludeAtLeastOne noun] else []) r'"
    unfolding r' by (rule extends_if_reject)
  have "items_failures am data noun field im =
      (ms @ concat (map (item_failures am noun im) xs))
      @ (if items = [] then [IncludeAtLeastOne noun] else [])"
    by (simp add: items_failures_def ms_def xs_def empty split: option.splits json.splits)
  then show ?thesis
    by (simp only: extends_trans [OF extends_trans [OF e0 e1] e2])
qed

text \<open>
  A call of \<^verbatim>\<open>studio_submit\<close> that returns has got a dictionary, has appended the
  messages of its failures to the empty list, and has left the block alone unless all
  checks passed.
\<close>

lemma poll_studio_submit_Inr:
  assumes "poll_studio_submit am p request = Inr (p', r)"
  shows "\<exists>data. request = JDict data
    \<and> extends \<lparr>success = True, errors = []\<rparr> (poll_failures am data) r
    \<and> (\<not> success r \<longrightarrow> p' = p)"
proof -
  from assms obtain data where data: "request = JDict data"
    by (cases request) (simp_all add: poll_studio_submit_def)
  let ?r0 = "\<lparr>success = True, errors = []\<rparr>"
  let ?priv = "truthy (dict_get data ''private_results'' (JBool False))"
  note run = assms [unfolded data poll_studio_submit_def Let_def json.case and_then_def]
  obtain q where q: "py_strip (dict_get data ''question'' (JStr [])) = Inr q"
    using run by (cases "py_strip (dict_get data ''question'' (JStr []))") simp_all
  note run1 = run [unfolded q sum.case]
  obtain f where f: "py_strip (dict_get data ''feedback'' (JStr [])) = Inr f"
    using run1 by (cases "py_strip (dict_get data ''feedback'' (JStr []))") simp_all
  note run2 = run1 [unfolded f sum.case]
  obtain n r1 where ms: "get_max_submissions data ?r0 ?priv = Inr (n, r1)"
    using run2 by (cases "get_max_submissions data ?r0 ?priv") auto
  note run3 = run2 [unfolded ms sum.case prod.case]
  obtain dn where dn: "py_strip (dict_get data ''display_name'' (JStr [])) = Inr dn"
    using run3 by (cases "py_strip (dict_get data ''display_name'' (JStr []))") simp_all
  note run4 = run3 [unfolded dn sum.case]
  let ?r2 = "if q = [] then reject MustSpecifyQuestion r1 else r1"
  obtain answers' r3 where gi: "gather_items am data ?r2 ''Answer'' ''answers'' True
      = Inr (answers', r3)"
    using run4 by (cases "gather_items am data ?r2 ''Answer'' ''answers'' True") auto
  note fin = run4 [unfolded gi sum.case prod.case]
  have r: "r = r3"
    using fin by (cases "success r3") simp_all
  have unchanged: "p' = p" if "\<not> success r"
    using fin that r by (cases "success r3") simp_all
  have e1: "extends ?r0 (max_submissions_failures data) r1"
    by (rule get_max_submissions_extends [OF ms])
  have e2: "extends r1 (if q = [] then [MustSpecifyQuestion] else []) ?r2"
    by (rule extends_if_reject)
  have e3: "extends ?r2 (items_failures am data ''Answer'' ''answers'' True) r3"
    by (rule gather_items_extends [OF gi])
  have "poll_failures am data =
      (max_submissions_failures data @ (if q = [] then [MustSpecifyQuestion] else []))
      @ items_failures am data ''Answer'' ''answers'' True"
    by (simp add: poll_failures_def py_strip_text_field [OF q])
  then have "extends ?r0 (poll_failures am data) r"
    by (simp only: r extends_trans [OF extends_trans [OF e1 e2] e3])
  with data unchanged show ?thesis
    by simp
qed

lemma survey_studio_submit_Inr:
  assumes "survey_studio_submit am s request = Inr (s', r)"
  shows "\<exists>data. request = JDict data
    \<and> extends \<lparr>success = True, errors = []\<rparr> (survey_failures am data) r
    \<and> (\<not> success r \<longrightarrow> s' = s)"
proof -
  from assms obtain data where data: "request = JDict data"
    by (cases request) (simp_all add: survey_studio_submit_def)
  let ?r0 = "\<lparr>success = True, errors = []\<rparr>"
  let ?priv = "truthy (dict_get data ''private_results'' (JBool False))"
  note run = assms [unfolded data survey_studio_submit_def Let_def json.case and_then_def]
  obtain f where f: "py_strip (dict_get data ''feedback'' (JStr [])) = Inr f"
    using run by (cases "py_strip (dict_get data ''feedback'' (JStr []))") simp_all
  note run1 = run [unfolded f sum.case]
  obtain bn where bn: "py_strip (dict_get data ''display_name'' (JStr [])) = Inr bn"
    using run1 by (cases "py_strip (dict_get data ''display_name'' (JStr []))") simp_all
  note run2 = run1 [unfolded bn sum.case]
  obtain n r1 where ms: "get_max_submissions data ?r0 ?priv = Inr (n, r1)"
    using run2 by (cases "get_max_submissions data ?r0 ?priv") auto
  note run3 = run2 [unfolded ms sum.case prod.case]
  obtain answers' r2 where ga: "gather_items am data r1 ''Answer'' ''answers'' False
      = Inr (answers', r2)"
    using run3 by (cases "gather_items am data r1 ''Answer'' ''answers'' False") auto
  note run4 = run3 [unfolded ga sum.case prod.case]
  obtain questions' r3 where gq: "gather_items am data r2 ''Question'' ''questions'' True
      = Inr (questions', r3)"
    using run4 by (cases "gather_items am data r2 ''Question'' ''questions'' True") auto
  note fin = run4 [unfolded gq sum.case prod.case]
  have r: "r = r3"
    using fin by (cases "success r3") simp_all
  have unchanged: "s' = s" if "\<not> success r"
    using fin that r by (cases "success r3") simp_all
  have e1: "extends ?r0 (max_submissions_failures data) r1"
    by (rule get_max_submissions_extends [OF ms])
  have e2: "extends r1 (items_failures am data ''Answer'' ''answers'' False) r2"
    by (rule gather_items_extends [OF ga])
  have e3: "extends r2 (items_failures am data ''Question'' ''questions'' True) r3"
    by (rule gather_items_extends [OF gq])
  have "survey_failures am data =
      (max_submissions_failures data @ items_failures am data ''Answer'' ''answers'' False)
      @ items_failures am data ''Question'' ''questions'' True"
    by (simp add: survey_failures_def)
  then have "extends ?r0 (survey_failures am data) r"
    by (simp only: r extends_trans [OF extends_trans [OF e1 e2] e3])
  with data unchanged show ?thesis
    by simp
qed

text \<open>
  When \<^verbatim>\<open>studio_submit\<close> of \<^verbatim>\<open>PollBlock\<close> or of \<^verbatim>\<open>SurveyBlock\<close> returns, every validation
  failure has set \<^verbatim>\<open>success\<close> to false and appended one message: the errors are the
  messages of the failures of the request, one each, and \<^verbatim>\<open>success\<close> is false exactly
  when the errors are not empty.
\<close>

lemma studio_submit_returned:
  "(poll_studio_submit am p request = Inr (p', r) \<longrightarrow>
      (\<exists>data. request = JDict data \<and> errors r = poll_failures am data)
      \<and> (\<not> success r \<longleftrightarrow> errors r \<noteq> []))
   \<and> (survey_studio_submit am s request = Inr (s', r') \<longrightarrow>
      (\<exists>data. request = JDict data \<and> errors r' = survey_failures am data)
      \<and> (\<not> success r' \<longleftrightarrow> errors r' \<noteq> []))"
  using poll_studio_submit_Inr [of am p request p' r]
    survey_studio_submit_Inr [of am s request s' r']
  by (auto simp: extends_def)

lemmas studio_eval = poll_studio_submit_def survey_studio_submit_def get_max_submissions_def
  gather_items_def gather_item_def py_strip_def strip_def is_space_def py_int_def parse_int_def
  parse_digits_def digit_of_def dict_get_def truthy_def reject_def add_error_def and_then_def
  getitem_def Let_def

text \<open>
  The bad request to the poll has five failures: two submissions without private results,
  a blank question, an answer that is \<^verbatim>\<open>null\<close>, and an answer without key whose image
  has no alternative text. The bad request to the survey has four.
\<close>

lemma studio_submit_returned_example:
  "poll_studio_submit True default_poll (JDict bad_poll_data) =
     Inr (default_poll,
          \<lparr>success = False,
           errors = [PrivateResultsConflict, MustSpecifyQuestion,
             NotJavascriptObject ''Answer'' JNull,
             ContainsNoKey ''Answer'' (JDict [(''label'', JStr ''Left''), (''img'', JStr ''l.png'')]),
             ImageNeedsAltText]\<rparr>)
   \<and> poll_failures True bad_poll_data =
       [PrivateResultsConflict, MustSpecifyQuestion,
        NotJavascriptObject ''Answer'' JNull,
        ContainsNoKey ''Answer'' (JDict [(''label'', JStr ''Left''), (''img'', JStr ''l.png'')]),
        ImageNeedsAltText]
   \<and> survey_studio_submit True default_survey (JDict bad_survey_data) =
       Inr (default_survey,
            \<lparr>success = False,
             errors = [MaxSubmissionsNotInteger, AddedWithNoLabel ''Answer'',
               FieldNotPresent ''questions'', IncludeAtLeastOne ''Question'']\<rparr>)
   \<and> survey_failures True bad_survey_data =
       [MaxSubmissionsNotInteger, AddedWithNoLabel ''Answer'',
        FieldNotPresent ''questions'', IncludeAtLeastOne ''Question'']"
proof -
  let ?r = "\<lparr>success = False,
           errors = [PrivateResultsConflict, MustSpecifyQuestion,
             NotJavascriptObject ''Answer'' JNull,
             ContainsNoKey ''Answer'' (JDict [(''label'', JStr ''Left''), (''img'', JStr ''l.png'')]),
             ImageNeedsAltText]\<rparr>"
  let ?r' = "\<lparr>success = False,
             errors = [MaxSubmissionsNotInteger, AddedWithNoLabel ''Answer'',
               FieldNotPresent ''questions'', IncludeAtLeastOne ''Question'']\<rparr>"
  have p: "poll_studio_submit True default_poll (JDict bad_poll_data) = Inr (default_poll, ?r)"
    by (simp add: studio_eval bad_poll_data_def)
  have s: "survey_studio_submit True default_survey (JDict bad_survey_data) =
      Inr (default_survey, ?r')"
    by (simp add: studio_eval bad_survey_data_def)
  from studio_submit_returned
    [where am = True and p = default_poll and request = "JDict bad_poll_data"
      and p' = default_poll and r = ?r] p
  have "errors ?r = poll_failures True bad_poll_data"
    by simp
  moreover
  from studio_submit_returned
    [where am = True and s = default_survey and request = "JDict bad_survey_data"
      and s' = default_survey and r' = ?r'] s
  have "errors ?r' = survey_failures True bad_survey_data"
    by simp
  ultimately show ?thesis
    using p s by simp
qed

text \<open>
  Claim C7. In \<^verbatim>\<open>studio_submit\<close> every validation failure is to set \<^verbatim>\<open>success\<close> to false
  and to append one message. A \<^verbatim>\<open>max_submissions\<close> that is \<^verbatim>\<open>null\<close> is not an integer, and
  the message for it exists; but \<^verbatim>\<open>int(None)\<close> raises \<^verbatim>\<open>TypeError\<close>, and
  \<^verbatim>\<open>get_max_submissions\<close> catches \<^verbatim>\<open>ValueError\<close> and \<^verbatim>\<open>KeyError\<close> only. An answer whose key
  is \<^verbatim>\<open>null\<close> has no key; \<^verbatim>\<open>gather_items\<close> calls \<^verbatim>\<open>strip\<close> on it and raises
  \<^verbatim>\<open>AttributeError\<close>. In both cases the handler returns no result at all.
\<close>

theorem studio_submit_raises:
  "poll_studio_submit True default_poll (JDict null_max_data) = Inl TypeError
   \<and> poll_failures True null_max_data = [MaxSubmissionsNotInteger]
   \<and> poll_studio_submit True default_poll (JDict null_key_data) = Inl AttributeError
   \<and> poll_failures True null_key_data =
       [ContainsNoKey ''Answer'' (JDict [(''key'', JNull), (''label'', JStr ''Right'')])]"
  by (simp add: studio_eval null_max_data_def null_key_data_def poll_failures_def
      max_submissions_failures_def items_failures_def item_failures_def text_field_def
      is_object_def)

section \<open>The settings after a rejected request\<close>

text \<open>
  Claim C10. When \<^verbatim>\<open>studio_submit\<close> returns a result with \<^verbatim>\<open>success\<close> false, the block is
  as it was: no settings field has been assigned. The fields are assigned only after all
  checks have passed.
\<close>

theorem studio_submit_atomic:
  "(poll_studio_submit am p request = Inr (p', r) \<and> \<not> success r \<longrightarrow> p' = p)
   \<and> (survey_studio_submit am s request = Inr (s', r') \<and> \<not> success r' \<longrightarrow> s' = s)"
  using poll_studio_submit_Inr [of am p request p' r]
    survey_studio_submit_Inr [of am s request s' r']
  by auto

text \<open>
  The valid request is stored, with its strings stripped; the bad requests leave the
  default blocks as they are.
\<close>

theorem studio_submit_atomic_witness:
  "poll_studio_submit True default_poll (JDict poll_data) =
     Inr (default_poll
            \<lparr>poll_answers :=
               [(''L'', JDict [(''label'', JStr ''Left''), (''img'', JStr []),
                               (''img_alt'', JStr [])]),
                (''R'', JDict [(''label'', JStr []), (''img'', JStr ''right.png''),
                               (''img_alt'', JStr ''An arrow to the right'')])],
             question := ''Which way?'', feedback := ''Thanks'', private_results := False,
             poll_display_name := ''Way'', max_submissions := 1\<rparr>,
          \<lparr>success = True, errors = []\<rparr>)
   \<and> (\<exists>r. poll_studio_submit True default_poll (JDict bad_poll_data) = Inr (default_poll, r)
          \<and> \<not> success r)
   \<and> (\<exists>r. survey_studio_submit True default_survey (JDict bad_survey_data)
            = Inr (default_survey, r) \<and> \<not> success r)"
proof -
  obtain p' r where p: "poll_studio_submit True default_poll (JDict bad_poll_data) = Inr (p', r)"
    and r: "\<not> success r"
    by (simp add: studio_eval bad_poll_data_def)
  obtain s' r' where s: "survey_studio_submit True default_survey (JDict bad_survey_data)
      = Inr (s', r')" and r': "\<not> success r'"
    by (simp add: studio_eval bad_survey_data_def)
  from studio_submit_atomic [where am = True and p = default_poll
      and request = "JDict bad_poll_data" and p' = p' and r = r] p r
  have p': "p' = default_poll"
    by simp
  from studio_submit_atomic [where am = True and s = default_survey
      and request = "JDict bad_survey_data" and s' = s' and r' = r'] s r'
  have "s' = default_survey"
    by simp
  with p' p r s r' show ?thesis
    by (auto simp: studio_eval poll_data_def)
qed

section \<open>The choices of a user of a survey\<close>

lemma json_in_dict_Inr: "json_in_dict d v = Inr b \<Longrightarrow> b = json_in_list (dict_keys d) v"
  by (auto simp: json_in_dict_def json_in_list_def has_key_def dict_keys_def split: json.splits)

lemma sort_eq_iff_set_eq:
  fixes xs ys :: "string list"
  assumes "distinct xs" and "distinct ys"
  shows "sort xs = sort ys \<longleftrightarrow> set xs = set ys"
proof
  assume "sort xs = sort ys"
  then have "set (sort xs) = set (sort ys)" by simp
  then show "set xs = set ys" by simp
next
  assume "set xs = set ys"
  with assms show "sort xs = sort ys"
    by (intro sorted_distinct_set_unique) simp_all
qed

lemma remove_vote_Inr:
  assumes "remove_vote s = Inr s1"
  shows "\<exists>c t. choices s = Some c
    \<and> remove_votes (dict (questions s)) (dict (survey_answers s)) c (survey_tally s) = Inr t
    \<and> s1 = s\<lparr>survey_tally := t, choices := None\<rparr>"
proof (cases "choices s")
  case None
  with assms show ?thesis by (simp add: remove_vote_def)
next
  case (Some c)
  with assms show ?thesis
    by (cases "remove_votes (dict (questions s)) (dict (survey_answers s)) c (survey_tally s)")
      (auto simp: remove_vote_def and_then_def)
qed

lemma check_values_Inr:
  "check_values s answers vs = Inr (s1, ch) \<Longrightarrow>
   (if list_all (json_in_list (dict_keys answers)) vs then s1 = s \<and> ch = choices s
    else ch = None \<and> remove_vote s = Inr s1)"
proof (induction vs)
  case Nil
  then show ?case by auto
next
  case (Cons v vs)
  from Cons.prems obtain known where k: "json_in_dict answers v = Inr known"
    by (cases "json_in_dict answers v") (simp_all add: and_then_def)
  note kl = json_in_dict_Inr [OF k]
  show ?case
  proof (cases known)
    case True
    with Cons.prems k have "check_values s answers vs = Inr (s1, ch)"
      by (simp add: and_then_def)
    from Cons.IH [OF this] True kl show ?thesis
      by simp
  next
    case False
    with Cons.prems k have "and_then (remove_vote s) (\<lambda>s'. Inr (s', None)) = Inr (s1, ch)"
      by (simp add: and_then_def)
    then have "ch = None \<and> remove_vote s = Inr s1"
      by (cases "remove_vote s") (auto simp: and_then_def)
    with False kl show ?thesis
      by simp
  qed
qed

lemma get_choices_Inr:
  assumes "get_choices s = Inr (s1, ch)"
    and "\<forall>c. choices s = Some c \<longrightarrow> distinct (dict_keys c)"
  shows "case choices s of
      None \<Rightarrow> s1 = s \<and> ch = None
    | Some c \<Rightarrow>
        if choices_valid s c then s1 = s \<and> ch = Some c
        else ch = None \<and> remove_vote s = Inr s1"
proof (cases "choices s")
  case None
  with assms show ?thesis by (simp add: get_choices_def)
next
  case (Some c)
  with assms(2) have dc: "distinct (dict_keys c)" by simp
  have keys: "sort (dict_keys (dict (questions s))) = sort (dict_keys c)
      \<longleftrightarrow> set (dict_keys c) = set (dict_keys (dict (questions s)))"
    using sort_eq_iff_set_eq [OF distinct_dict_keys_dict dc, of "questions s"] by auto
  show ?thesis
  proof (cases "set (dict_keys c) = set (dict_keys (dict (questions s)))")
    case False
    with assms(1) Some keys
    have "and_then (remove_vote s) (\<lambda>s'. Inr (s', None)) = Inr (s1, ch)"
      by (simp add: get_choices_def Let_def)
    then have "ch = None \<and> remove_vote s = Inr s1"
      by (cases "remove_vote s") (auto simp: and_then_def)
    with False Some show ?thesis
      by (simp add: choices_valid_def)
  next
    case True
    with assms(1) Some keys
    have "check_values s (dict (survey_answers s)) (dict_values c) = Inr (s1, ch)"
      by (simp add: get_choices_def Let_def)
    from check_values_Inr [OF this] True Some show ?thesis
      by (simp add: choices_valid_def)
  qed
qed

lemma success_reject [simp]: "\<not> success (reject m r)"
  by (simp add: reject_def add_error_def)

lemma success_fold_reject:
  "success (fold (\<lambda>(key, v) r. if \<not> P v then reject (M key v) r else r) data r0)
     \<longleftrightarrow> success r0 \<and> list_all P (map snd data)"
proof (induction data arbitrary: r0)
  case Nil
  show ?case by simp
next
  case (Cons p data)
  obtain key v where p: "p = (key, v)" by (cases p)
  show ?case
    by (cases "P v") (simp_all add: Cons.IH p)
qed

lemma tally_iadd_counter:
  assumes "tally_iadd t key v n = Inr t'"
  shows "\<exists>a. v = JStr a \<and>
    (\<forall>q b. counter t' q b =
       map_option (\<lambda>m. m + (if q = key \<and> b = a then n else 0)) (counter t q b))"
proof -
  from assms obtain counters where c: "getitem t key = Inr counters"
    by (cases "getitem t key") (simp_all add: tally_iadd_def and_then_def)
  from assms c obtain m where m: "json_getitem counters v = Inr m"
    by (cases "json_getitem counters v") (simp_all add: tally_iadd_def and_then_def)
  from json_getitem_Inr [OF m] obtain a where a: "v = JStr a" and ma: "map_of counters a = Some m"
    by blast
  from assms c m a have t': "t' = setitem t key (setitem counters a (m + n))"
    by (simp add: tally_iadd_def and_then_def)
  from c have tk: "map_of t key = Some counters"
    by (simp add: getitem_def split: option.splits)
  have "counter t' q b = map_option (\<lambda>m. m + (if q = key \<and> b = a then n else 0)) (counter t q b)"
    for q b
  proof (cases "q = key")
    case False
    then show ?thesis
      by (simp add: t' counter_def map_of_setitem option.map_ident)
  next
    case True
    with tk ma show ?thesis
      by (cases "b = a") (simp_all add: t' counter_def map_of_setitem option.map_ident)
  qed
  with a show ?thesis by blast
qed


lemma add_votes_counter:
  "add_votes data t = Inr t' \<Longrightarrow>
   counter t' q a = map_option (\<lambda>m. m + int (count_list data (q, JStr a))) (counter t q a)"
proof (induction data arbitrary: t)
  case Nil
  then show ?case by (simp add: option.map_ident)
next
  case (Cons p data)
  obtain key v where p: "p = (key, v)" by (cases p)
  from Cons.prems p obtain t1 where t1: "tally_iadd t key v 1 = Inr t1"
    and rest: "add_votes data t1 = Inr t'"
    by (cases "tally_iadd t key v 1") (simp_all add: and_then_def)
  from tally_iadd_counter [OF t1] obtain b where b: "v = JStr b"
    and c1: "counter t1 q a = map_option (\<lambda>m. m + (if q = key \<and> a = b then 1 else 0)) (counter t q a)"
    by blast
  have n: "int (count_list (p # data) (q, JStr a)) =
      (if q = key \<and> a = b then 1 else 0) + int (count_list data (q, JStr a))"
    by (simp add: p b)
  show ?case
    unfolding Cons.IH [OF rest] c1 n
    by (cases "counter t q a") simp_all
qed

lemma json_in_dict_hashable:
  "hashable v \<Longrightarrow> json_in_dict d v = Inr (json_in_list (dict_keys d) v)"
  by (cases v) (simp_all add: hashable_def json_in_dict_def json_in_list_def has_key_def dict_keys_def)

lemma check_values_hashable:
  "list_all hashable vs \<Longrightarrow>
   check_values s answers vs =
     (if list_all (json_in_list (dict_keys answers)) vs then Inr (s, choices s)
      else and_then (remove_vote s) (\<lambda>s'. Inr (s', None)))"
  by (induction vs) (simp_all add: json_in_dict_hashable and_then_def)

lemma get_choices_stored:
  assumes "choices s = Some c" and "distinct (dict_keys c)"
    and "list_all hashable (dict_values c)"
  shows "get_choices s =
     (if choices_valid s c then Inr (s, Some c)
      else and_then (remove_vote s) (\<lambda>s'. Inr (s', None)))"
proof -
  have keys: "sort (dict_keys (dict (questions s))) = sort (dict_keys c)
      \<longleftrightarrow> set (dict_keys c) = set (dict_keys (dict (questions s)))"
    using sort_eq_iff_set_eq [OF distinct_dict_keys_dict assms(2), of "questions s"] by auto
  show ?thesis
  proof (cases "set (dict_keys c) = set (dict_keys (dict (questions s)))")
    case False
    with keys assms(1) show ?thesis
      by (simp add: get_choices_def Let_def choices_valid_def)
  next
    case True
    with keys assms(1) check_values_hashable [OF assms(3), of s "dict (survey_answers s)"]
    show ?thesis
      by (simp add: get_choices_def Let_def choices_valid_def)
  qed
qed

lemma remove_votes_counter:
  "remove_votes qs as c t = Inr t' \<Longrightarrow>
   counter t' q a =
     map_option
       (\<lambda>n. n - int (count_list
          (filter (\<lambda>(k, v). has_key qs k \<and> json_in_list (dict_keys as) v) c) (q, JStr a)))
       (counter t q a)"
proof (induction c arbitrary: t)
  case Nil
  then show ?case by (simp add: option.map_ident)
next
  case (Cons p c)
  obtain key v where p: "p = (key, v)" by (cases p)
  show ?case
  proof (cases "has_key qs key")
    case False
    with Cons.prems p have "remove_votes qs as c t = Inr t'" by simp
    from Cons.IH [OF this] False p show ?thesis by simp
  next
    case True
    with Cons.prems p obtain known where k: "json_in_dict as v = Inr known"
      by (cases "json_in_dict as v") (simp_all add: and_then_def)
    note kl = json_in_dict_Inr [OF k]
    show ?thesis
    proof (cases known)
      case False
      with Cons.prems p True k have "remove_votes qs as c t = Inr t'"
        by (simp add: and_then_def)
      from Cons.IH [OF this] False kl p show ?thesis by simp
    next
      case known: True
      with Cons.prems p True k obtain t1 where t1: "tally_iadd t key v (- 1) = Inr t1"
        and rest: "remove_votes qs as c t1 = Inr t'"
        by (cases "tally_iadd t key v (- 1)") (simp_all add: and_then_def)
      from tally_iadd_counter [OF t1] obtain b where b: "v = JStr b"
        and c1: "counter t1 q a =
          map_option (\<lambda>m. m + (if q = key \<and> a = b then - 1 else 0)) (counter t q a)"
        by blast
      have n: "int (count_list
          (filter (\<lambda>(k, v). has_key qs k \<and> json_in_list (dict_keys as) v) (p # c)) (q, JStr a)) =
          (if q = key \<and> a = b then 1 else 0) + int (count_list
          (filter (\<lambda>(k, v). has_key qs k \<and> json_in_list (dict_keys as) v) c) (q, JStr a))"
        using True known kl by (simp add: p b)
      show ?thesis
        unfolding Cons.IH [OF rest] c1 n
        by (cases "counter t q a") simp_all
    qed
  qed
qed

text \<open>Evaluation of the handlers of the survey on the example blocks.\<close>

lemmas survey_vote_eval = survey_vote_def survey_clean_tally_def clean_answers_def nonempty_def
  json_in_list_def

text \<open>The scenario runs through the handlers and ends in the block \<open>readded_survey\<close>.\<close>

lemma scenario_first_vote: "survey_vote default_survey (vote_request ''Y'' ''N'' ''Y'') =
    Inr (voted_survey, \<lparr>success = True, errors = [], res_can_vote = Some False,
           res_submissions_count = Some 1, res_max_submissions = Some 1\<rparr>)"
  by (simp add: survey_vote_eval survey_eval poll_eval voted_survey_def
      default_survey_def vote_request_def)

lemma scenario_first_edit: "survey_studio_submit True voted_survey
            (studio_request [answer_item ''N'' ''No'', answer_item ''M'' ''Maybe'']) =
    Inr (survey_after_edit, \<lparr>success = True, errors = []\<rparr>)"
  by (simp add: studio_eval studio_request_def answer_item_def survey_after_edit_def voted_survey_def
      default_survey_def gathered_def)

lemma scenario_second_vote: "survey_vote (as_user survey_after_edit (Some []) 0) (vote_request ''N'' ''N'' ''N'') =
    Inr (survey_after_second_vote, \<lparr>success = True, errors = [], res_can_vote = Some False,
           res_submissions_count = Some 1, res_max_submissions = Some 1\<rparr>)"
  by (simp add: survey_vote_eval survey_eval poll_eval voted_survey_def survey_after_edit_def survey_after_second_vote_def as_user_def
      default_survey_def vote_request_def gathered_def)

lemma scenario_second_edit: "survey_studio_submit True survey_after_second_vote
            (studio_request [answer_item ''Y'' ''Yes'', answer_item ''M'' ''Maybe'']) =
    Inr (survey_after_second_vote\<lparr>survey_answers := [(''Y'', JStr ''Yes''), (''M'', JStr ''Maybe'')]\<rparr>,
         \<lparr>success = True, errors = []\<rparr>)"
  by (simp add: studio_eval studio_request_def answer_item_def survey_after_edit_def survey_after_second_vote_def voted_survey_def
      default_survey_def gathered_def)

lemma readd_scenario_reaches: "readd_scenario = Some readded_survey"
  by (simp add: readd_scenario_def scenario_first_vote scenario_first_edit scenario_second_vote
      scenario_second_edit)
    (simp add: as_user_def survey_after_second_vote_def survey_after_edit_def voted_survey_def default_survey_def readded_survey_def)

text \<open>
  Claim C4. \<^verbatim>\<open>get_choices\<close> is to return the stored choices when they are valid, and
  otherwise \<^verbatim>\<open>None\<close> after removing the stale vote from the tally (lemmas
  \<open>get_choices_stored\<close> and \<open>remove_votes_counter\<close>, when the removal returns). User A
  of the scenario has the stale choice \<^verbatim>\<open>N\<close> and the choice \<^verbatim>\<open>Y\<close>, which is configured
  again but has no counter since the reconciliation dropped it: \<^verbatim>\<open>remove_vote\<close> raises
  \<^verbatim>\<open>KeyError\<close> on \<^verbatim>\<open>self.tally[key][value] -= 1\<close>.
\<close>

theorem get_choices_missing_counter:
  "get_choices readded_survey = Inl KeyError"
  by (simp add: survey_eval poll_eval readded_survey_def gathered_def)

section \<open>Voting in a survey\<close>

lemma survey_vote_steps:
  assumes "survey_vote s request = Inr (s', r)" and "success r"
  shows "\<exists>s1 ch data s2 s3 t.
      get_choices s = Inr (s1, ch)
    \<and> request = JDict data
    \<and> \<not> (nonempty ch \<and> \<not> private_results s1)
    \<and> sort (dict_keys data) = sort (dict_keys (dict (questions s)))
    \<and> list_all (json_in_list (dict_keys (dict (survey_answers s)))) (dict_values data)
    \<and> s2 = (if \<not> nonempty ch then s1\<lparr>submissions_count := 0\<rparr> else s1)
    \<and> (if nonempty (choices s2) then remove_vote s2 else Inr s2) = Inr s3
    \<and> add_votes data (survey_tally (survey_clean_tally (s3\<lparr>choices := Some data\<rparr>))) = Inr t
    \<and> s' = (survey_clean_tally (s3\<lparr>choices := Some data\<rparr>))
         \<lparr>submissions_count :=
            submissions_count (survey_clean_tally (s3\<lparr>choices := Some data\<rparr>)) + 1,
          survey_tally := t\<rparr>"
proof -
  note run = assms(1) [unfolded survey_vote_def Let_def and_then_def]
  obtain s1 ch where gc: "get_choices s = Inr (s1, ch)"
    using run by (cases "get_choices s") auto
  note run1 = run [unfolded gc sum.case prod.case]
  obtain data where data: "request = JDict data"
    using run1 by (cases request) simp_all
  note run2 = run1 [unfolded data json.case]
  define result where "result = \<lparr>success = True, errors = [], res_can_vote = None,
                   res_submissions_count = None, res_max_submissions = None\<rparr>"
  define result1 where "result1 = (if nonempty ch \<and> \<not> private_results s1
                       then reject AlreadyVoted result else result)"
  define s2 where "s2 = (if \<not> nonempty ch then s1\<lparr>submissions_count := 0\<rparr> else s1)"
  define result2 where "result2 = (if \<not> can_vote s2
                       then reject VotedAsManyTimesAsAllowed result1 else result1)"
  define result3 where "result3 =
     (if \<not> sort (dict_keys data) = sort (dict_keys (dict (questions s)))
      then reject QuestionsMismatch result2 else result2)"
  define result4 where "result4 = fold (\<lambda>(key, v) r.
         if \<not> json_in_list (dict_keys (dict (survey_answers s))) v
         then reject (UnknownAnswer key v) r else r) data result3"
  have run3: "(if \<not> success result4
       then Inr (s2, result4\<lparr>res_can_vote := Some (can_vote s2)\<rparr>)
       else
         (case (if nonempty (choices s2) then remove_vote s2 else Inr s2) of
            Inl e \<Rightarrow> Inl e
          | Inr s3 \<Rightarrow>
            (case add_votes data (survey_tally (survey_clean_tally (s3\<lparr>choices := Some data\<rparr>))) of
               Inl e \<Rightarrow> Inl e
             | Inr t \<Rightarrow>
                 Inr ((survey_clean_tally (s3\<lparr>choices := Some data\<rparr>))
                        \<lparr>submissions_count :=
                           submissions_count (survey_clean_tally (s3\<lparr>choices := Some data\<rparr>)) + 1,
                         survey_tally := t\<rparr>,
                      result4
                        \<lparr>res_can_vote := Some (can_vote
                           ((survey_clean_tally (s3\<lparr>choices := Some data\<rparr>))
                              \<lparr>submissions_count :=
                                 submissions_count (survey_clean_tally (s3\<lparr>choices := Some data\<rparr>)) + 1,
                               survey_tally := t\<rparr>)),
                         res_submissions_count := Some (submissions_count
                           ((survey_clean_tally (s3\<lparr>choices := Some data\<rparr>))
                              \<lparr>submissions_count :=
                                 submissions_count (survey_clean_tally (s3\<lparr>choices := Some data\<rparr>)) + 1,
                               survey_tally := t\<rparr>)),
                         res_max_submissions := Some (max_submissions
                           ((survey_clean_tally (s3\<lparr>choices := Some data\<rparr>))
                              \<lparr>submissions_count :=
                                 submissions_count (survey_clean_tally (s3\<lparr>choices := Some data\<rparr>)) + 1,
                               survey_tally := t\<rparr>))\<rparr>)))) = Inr (s', r)"
    unfolding result4_def result3_def result2_def s2_def result1_def result_def
    by (rule run2)
  have ok4: "success result4"
  proof (rule ccontr)
    assume n: "\<not> success result4"
    from run3 [unfolded if_P [OF n]] have "success r = success result4"
      by auto
    with n assms(2) show False by simp
  qed
  then have ok3: "success result3"
    and vals: "list_all (json_in_list (dict_keys (dict (survey_answers s)))) (dict_values data)"
    by (simp_all add: result4_def success_fold_reject dict_values_def)
  from ok3 have keys: "sort (dict_keys data) = sort (dict_keys (dict (questions s)))"
    and ok2: "success result2"
    by (auto simp: result3_def split: if_splits)
  from ok2 have ok1: "success result1"
    by (auto simp: result2_def split: if_splits)
  then have nv: "\<not> (nonempty ch \<and> \<not> private_results s1)"
    by (auto simp: result1_def split: if_splits)
  have ch2: "choices s2 = choices s1"
    by (simp add: s2_def)
  note run4 = run3 [simplified ok4, simplified]
  obtain s3 where s3: "(if nonempty (choices s2) then remove_vote s2 else Inr s2) = Inr s3"
    using run4 by (cases "if nonempty (choices s2) then remove_vote s2 else Inr s2") simp_all
  note run5 = run4 [unfolded s3 sum.case]
  obtain t where t: "add_votes data (survey_tally (survey_clean_tally (s3\<lparr>choices := Some data\<rparr>)))
      = Inr t"
    using run5
    by (cases "add_votes data (survey_tally (survey_clean_tally (s3\<lparr>choices := Some data\<rparr>)))")
      simp_all
  note run6 = run5 [unfolded t sum.case]
  from run6 have s': "s' = (survey_clean_tally (s3\<lparr>choices := Some data\<rparr>))
      \<lparr>submissions_count := submissions_count (survey_clean_tally (s3\<lparr>choices := Some data\<rparr>)) + 1,
       survey_tally := t\<rparr>"
    by simp
  from gc data nv keys vals s2_def s3 t s' show ?thesis
    by blast
qed

lemma survey_clean_tally_fields:
  "survey_clean_tally x = x\<lparr>survey_tally := survey_tally (survey_clean_tally x)\<rparr>"
  by (simp add: survey_clean_tally_def Let_def)

lemma survey_clean_tally_cong:
  "questions x = questions y \<Longrightarrow> survey_answers x = survey_answers y \<Longrightarrow>
   survey_tally x = survey_tally y \<Longrightarrow>
   survey_tally (survey_clean_tally x) = survey_tally (survey_clean_tally y)"
  by (simp add: survey_clean_tally_def Let_def)

lemma survey_vote_previous:
  assumes gc: "get_choices s = Inr (s1, ch)"
    and wf: "\<forall>c. choices s = Some c \<longrightarrow> distinct (dict_keys c)"
    and s2: "s2 = (if \<not> nonempty ch then s1\<lparr>submissions_count := 0\<rparr> else s1)"
    and s3: "(if nonempty (choices s2) then remove_vote s2 else Inr s2) = Inr s3"
  shows "previous_removed s = Inr (survey_tally s3)
    \<and> questions s3 = questions s \<and> survey_answers s3 = survey_answers s
    \<and> submissions_count s3 = (if revote s then submissions_count s else 0)
    \<and> (nonempty ch \<longleftrightarrow> revote s)
    \<and> private_results s1 = private_results s"
proof (cases "choices s")
  case None
  with get_choices_Inr [OF gc wf] have "s1 = s" "ch = None"
    by simp_all
  with None s2 s3 show ?thesis
    by (auto simp: nonempty_def previous_removed_def revote_def)
next
  case (Some c)
  note gi = get_choices_Inr [OF gc wf, unfolded Some option.case]
  show ?thesis
  proof (cases "choices_valid s c")
    case True
    with gi have s1: "s1 = s" and ch: "ch = Some c"
      by simp_all
    show ?thesis
    proof (cases "c = []")
      case True
      with s1 ch Some s2 s3 \<open>choices_valid s c\<close> show ?thesis
        by (auto simp: nonempty_def previous_removed_def revote_def)
    next
      case False
      with s1 ch Some s2 have "s2 = s" "nonempty (choices s2)"
        by (simp_all add: nonempty_def)
      with s3 have "remove_vote s = Inr s3"
        by simp
      from remove_vote_Inr [OF this] Some obtain t where
        "remove_votes (dict (questions s)) (dict (survey_answers s)) c (survey_tally s) = Inr t"
        "s3 = s\<lparr>survey_tally := t, choices := None\<rparr>"
        by auto
      with False s1 ch Some \<open>choices_valid s c\<close> show ?thesis
        by (auto simp: nonempty_def previous_removed_def revote_def)
    qed
  next
    case False
    with gi have ch: "ch = None" and rv: "remove_vote s = Inr s1"
      by simp_all
    from remove_vote_Inr [OF rv] Some obtain t where
      t: "remove_votes (dict (questions s)) (dict (survey_answers s)) c (survey_tally s) = Inr t"
      and s1: "s1 = s\<lparr>survey_tally := t, choices := None\<rparr>"
      by auto
    from ch s1 s2 s3 have "s3 = s\<lparr>survey_tally := t, choices := None, submissions_count := 0\<rparr>"
      by (simp add: nonempty_def)
    with False ch Some t s1 show ?thesis
      by (auto simp: nonempty_def previous_removed_def revote_def)
  qed
qed

text \<open>
  Removing the previous vote takes one vote from the counter of every recorded pair whose
  question and answer are still configured, and leaves the other counters as they were.
\<close>

lemma previous_removed_counter:
  assumes "previous_removed s = Inr t0"
  shows "counter t0 q a =
     map_option (\<lambda>n. n - int (count_list (recorded_pairs s) (q, JStr a)))
       (counter (survey_tally s) q a)"
proof (cases "choices s")
  case None
  with assms show ?thesis
    by (simp add: previous_removed_def recorded_pairs_def option.map_ident)
next
  case (Some c)
  with assms
  have "remove_votes (dict (questions s)) (dict (survey_answers s)) c (survey_tally s) = Inr t0"
    by (simp add: previous_removed_def)
  from remove_votes_counter [OF this, of q a] Some show ?thesis
    by (simp add: recorded_pairs_def)
qed

text \<open>
  Claim C2, as amended. \<^verbatim>\<open>SurveyBlock.vote\<close> succeeds only when the question keys of the
  submitted data are exactly the configured question keys and every submitted value is a
  configured answer key. On success the submitted mapping is the stored choices; the
  previous vote of the user, if one is recorded, has been removed from the tally
  (\<^verbatim>\<open>tally[q][v]\<close> decremented by 1 for each recorded pair whose question and answer are
  still configured), and relative to that tally as \<^verbatim>\<open>clean_tally\<close> reconciles it, \<^verbatim>\<open>tally[q][a]\<close> is incremented
  by 1 for each submitted pair. On a re-vote (valid, non-empty previous choices, only
  possible with \<^verbatim>\<open>private_results\<close>) \<^verbatim>\<open>submissions_count\<close> is incremented by 1; otherwise
  it is reset and becomes 1. The stored choices are a dictionary: their keys are distinct.
\<close>

theorem survey_vote_records:
  assumes "survey_vote s request = Inr (s', r)" and "success r"
    and "\<forall>c. choices s = Some c \<longrightarrow> distinct (dict_keys c)"
  shows "\<exists>data t0. request = JDict data
    \<and> set (dict_keys data) = set (dict_keys (dict (questions s)))
    \<and> list_all (json_in_list (dict_keys (dict (survey_answers s)))) (dict_values data)
    \<and> choices s' = Some data
    \<and> previous_removed s = Inr t0
    \<and> (\<forall>q a. counter t0 q a =
          map_option (\<lambda>n. n - int (count_list (recorded_pairs s) (q, JStr a)))
            (counter (survey_tally s) q a))
    \<and> (\<forall>q a. counter (survey_tally s') q a =
          map_option (\<lambda>n. n + int (count_list data (q, JStr a)))
            (counter (survey_tally (survey_clean_tally (s\<lparr>survey_tally := t0\<rparr>))) q a))
    \<and> (if revote s
        then private_results s \<and> submissions_count s' = submissions_count s + 1
        else submissions_count s' = 1)"
proof -
  from survey_vote_steps [OF assms(1,2)] obtain s1 ch data s2 s3 t where
    gc: "get_choices s = Inr (s1, ch)"
    and data: "request = JDict data"
    and nv: "\<not> (nonempty ch \<and> \<not> private_results s1)"
    and keys: "sort (dict_keys data) = sort (dict_keys (dict (questions s)))"
    and vals: "list_all (json_in_list (dict_keys (dict (survey_answers s)))) (dict_values data)"
    and s2: "s2 = (if \<not> nonempty ch then s1\<lparr>submissions_count := 0\<rparr> else s1)"
    and s3: "(if nonempty (choices s2) then remove_vote s2 else Inr s2) = Inr s3"
    and t: "add_votes data (survey_tally (survey_clean_tally (s3\<lparr>choices := Some data\<rparr>))) = Inr t"
    and s': "s' = (survey_clean_tally (s3\<lparr>choices := Some data\<rparr>))
         \<lparr>submissions_count :=
            submissions_count (survey_clean_tally (s3\<lparr>choices := Some data\<rparr>)) + 1,
          survey_tally := t\<rparr>"
    by blast
  from survey_vote_previous [OF gc assms(3) s2 s3]
  have prev: "previous_removed s = Inr (survey_tally s3)"
    and q3: "questions s3 = questions s" and a3: "survey_answers s3 = survey_answers s"
    and c3: "submissions_count s3 = (if revote s then submissions_count s else 0)"
    and rv: "nonempty ch \<longleftrightarrow> revote s"
    and pr: "private_results s1 = private_results s"
    by simp_all
  have ks: "set (dict_keys data) = set (dict_keys (dict (questions s)))"
    using arg_cong [OF keys, of set] by simp
  have flds: "choices (survey_clean_tally (s3\<lparr>choices := Some data\<rparr>)) = Some data"
    "submissions_count (survey_clean_tally (s3\<lparr>choices := Some data\<rparr>)) = submissions_count s3"
    by (subst survey_clean_tally_fields, simp)+
  have base: "survey_tally (survey_clean_tally (s3\<lparr>choices := Some data\<rparr>)) =
      survey_tally (survey_clean_tally (s\<lparr>survey_tally := survey_tally s3\<rparr>))"
    by (rule survey_clean_tally_cong) (simp_all add: q3 a3)
  have cnt: "counter (survey_tally s') q a =
          map_option (\<lambda>n. n + int (count_list data (q, JStr a)))
            (counter (survey_tally (survey_clean_tally (s\<lparr>survey_tally := survey_tally s3\<rparr>))) q a)"
    for q a
    using add_votes_counter [OF t, of q a] by (simp add: s' base)
  have ch': "choices s' = Some data"
    by (simp add: s' flds)
  have sc: "submissions_count s' = (if revote s then submissions_count s else 0) + 1"
    by (simp add: s' flds c3)
  have dec: "counter (survey_tally s3) q a =
          map_option (\<lambda>n. n - int (count_list (recorded_pairs s) (q, JStr a)))
            (counter (survey_tally s) q a)"
    for q a
    by (rule previous_removed_counter [OF prev])
  from nv rv pr have "revote s \<Longrightarrow> private_results s"
    by simp
  with data ks vals ch' prev dec cnt sc show ?thesis
    by auto
qed

text \<open>A re-vote in the survey with private results: the second of two submissions.\<close>

theorem survey_vote_records_witness:
  "survey_vote private_survey (vote_request ''N'' ''N'' ''M'') =
     Inr (private_survey
            \<lparr>submissions_count := 2,
             survey_tally := [(''enjoy'', [(''Y'', 0), (''N'', 1), (''M'', 0)]),
                              (''recommend'', [(''Y'', 0), (''N'', 1), (''M'', 0)]),
                              (''learn'', [(''Y'', 0), (''N'', 0), (''M'', 1)])],
             choices := Some [(''enjoy'', JStr ''N''), (''recommend'', JStr ''N''),
                              (''learn'', JStr ''M'')]\<rparr>,
          \<lparr>success = True, errors = [], res_can_vote = Some False,
           res_submissions_count = Some 2, res_max_submissions = Some 2\<rparr>)
   \<and> revote private_survey
   \<and> private_results private_survey
   \<and> (\<exists>t0. previous_removed private_survey = Inr t0)"
proof -
  let ?s' = "private_survey
            \<lparr>submissions_count := 2,
             survey_tally := [(''enjoy'', [(''Y'', 0), (''N'', 1), (''M'', 0)]),
                              (''recommend'', [(''Y'', 0), (''N'', 1), (''M'', 0)]),
                              (''learn'', [(''Y'', 0), (''N'', 0), (''M'', 1)])],
             choices := Some [(''enjoy'', JStr ''N''), (''recommend'', JStr ''N''),
                              (''learn'', JStr ''M'')]\<rparr>"
  let ?r = "\<lparr>success = True, errors = [], res_can_vote = Some False,
           res_submissions_count = Some 2, res_max_submissions = Some 2\<rparr>"
  have run: "survey_vote private_survey (vote_request ''N'' ''N'' ''M'') = Inr (?s', ?r)"
    by (simp add: survey_vote_eval survey_eval poll_eval private_survey_def voted_survey_def
        default_survey_def vote_request_def)
  have ok: "success ?r"
    by simp
  have wf: "\<forall>c. choices private_survey = Some c \<longrightarrow> distinct (dict_keys c)"
    by (simp add: private_survey_def voted_survey_def default_survey_def dict_keys_def)
  have rv: "revote private_survey"
    by (simp add: revote_def choices_valid_def private_survey_def voted_survey_def
        default_survey_def dict_simps json_in_list_def)
  from survey_vote_records [OF run ok wf] obtain t0 where
    "previous_removed private_survey = Inr t0"
    and "if revote private_survey
        then private_results private_survey
          \<and> submissions_count ?s' = submissions_count private_survey + 1
        else submissions_count ?s' = 1"
    by blast
  with rv run show ?thesis
    by simp
qed

text \<open>
  The claim as it was stated fails on the invalidated vote: the user had submitted once,
  the question \<^verbatim>\<open>learn\<close> was removed, and after the next successful vote
  \<^verbatim>\<open>submissions_count\<close> is 1 again, not 2.
\<close>

theorem survey_vote_counterexample:
  "survey_vote invalidated_survey (JDict [(''enjoy'', JStr ''N''), (''recommend'', JStr ''N'')]) =
     Inr (invalidated_survey
            \<lparr>survey_tally := [(''enjoy'', [(''Y'', 0), (''N'', 1), (''M'', 0)]),
                              (''recommend'', [(''Y'', 0), (''N'', 1), (''M'', 0)])],
             choices := Some [(''enjoy'', JStr ''N''), (''recommend'', JStr ''N'')]\<rparr>,
          \<lparr>success = True, errors = [], res_can_vote = Some False,
           res_submissions_count = Some 1, res_max_submissions = Some 1\<rparr>)
   \<and> submissions_count invalidated_survey = 1
   \<and> submissions_count
        (invalidated_survey
            \<lparr>survey_tally := [(''enjoy'', [(''Y'', 0), (''N'', 1), (''M'', 0)]),
                              (''recommend'', [(''Y'', 0), (''N'', 1), (''M'', 0)])],
             choices := Some [(''enjoy'', JStr ''N''), (''recommend'', JStr ''N'')]\<rparr>)
       \<noteq> submissions_count invalidated_survey + 1"
  by (simp add: survey_vote_eval survey_eval poll_eval invalidated_survey_def voted_survey_def
      default_survey_def)

end
